theory Spec2Isabelle
  imports Complex_Main "HOL-Library.Sublist"
begin

section \<open>JavaScript values\<close>

text \<open>
  A JavaScript number is a double. Its finite values are rationals, and the only operations
  the client applies to numbers (\<open>Math.max\<close>, \<open>Math.min\<close>, truthiness, \<open>===\<close>) are exact on
  them, so a finite number is modelled by the rational it denotes; negative zero is
  identified with zero (both are falsy, and \<open>Math.max(1, x)\<close> forgets the sign).
\<close>

datatype jsnum = NaN | NegInf | PosInf | Fin rat

fun num_truthy :: "jsnum \<Rightarrow> bool" where
  "num_truthy NaN = False"
| "num_truthy NegInf = True"
| "num_truthy PosInf = True"
| "num_truthy (Fin r) = (r \<noteq> 0)"

fun num_less :: "jsnum \<Rightarrow> jsnum \<Rightarrow> bool" where
  "num_less NegInf (Fin b) = True"
| "num_less NegInf PosInf = True"
| "num_less (Fin a) PosInf = True"
| "num_less (Fin a) (Fin b) = (a < b)"
| "num_less a b = False"

definition Math_max :: "jsnum \<Rightarrow> jsnum \<Rightarrow> jsnum" where
  "Math_max a b = (if a = NaN \<or> b = NaN then NaN else if num_less a b then b else a)"

definition Math_min :: "jsnum \<Rightarrow> jsnum \<Rightarrow> jsnum" where
  "Math_min a b = (if a = NaN \<or> b = NaN then NaN else if num_less b a then b else a)"

text \<open>
  The values a caller passes in a filter record are primitives: \<open>undefined\<close> (also a
  missing property), \<open>null\<close>, booleans, numbers and strings.
\<close>

datatype prim = Undefined | Null | Bool bool | Num jsnum | Str string

fun truthy :: "prim \<Rightarrow> bool" where
  "truthy Undefined = False"
| "truthy Null = False"
| "truthy (Bool b) = b"
| "truthy (Num n) = num_truthy n"
| "truthy (Str s) = (s \<noteq> [])"

text \<open>
  A parsed response body is a JSON value. An object is the list of its own properties;
  where a key is listed twice the first entry is the property.
\<close>

datatype json =
    JNull
  | JBool bool
  | JNum jsnum
  | JStr string
  | JArr "json list"
  | JObj "(string \<times> json) list"

fun json_truthy :: "json \<Rightarrow> bool" where
  "json_truthy JNull = False"
| "json_truthy (JBool b) = b"
| "json_truthy (JNum n) = num_truthy n"
| "json_truthy (JStr s) = (s \<noteq> [])"
| "json_truthy (JArr xs) = True"
| "json_truthy (JObj kvs) = True"

text \<open>
  \<open>v?.k\<close> for the keys the client reads (\<open>status\<close>, \<open>message\<close>, \<open>error\<close>, \<open>totalResults\<close>,
  \<open>articles\<close>): none of them is a member of a built-in prototype, so the access yields
  \<open>undefined\<close> (here \<open>None\<close>) on everything but an object that owns the key.
\<close>

fun opt_get :: "json \<Rightarrow> string \<Rightarrow> json option" where
  "opt_get (JObj kvs) k = map_of kvs k"
| "opt_get v k = None"

section \<open>Strings\<close>

text \<open>
  A string is the list of its code units, and the model covers the code units below 256.
  On those, \<open>toLowerCase\<close> and the case folding of a regular expression with the \<open>i\<close> flag
  act unit by unit.
\<close>

definition latin1_upper :: string where
  "latin1_upper =
     ''ABCDEFGHIJKLMNOPQRSTUVWXYZ'' @
     [CHR 0xC0, CHR 0xC1, CHR 0xC2, CHR 0xC3, CHR 0xC4, CHR 0xC5, CHR 0xC6, CHR 0xC7,
      CHR 0xC8, CHR 0xC9, CHR 0xCA, CHR 0xCB, CHR 0xCC, CHR 0xCD, CHR 0xCE, CHR 0xCF,
      CHR 0xD0, CHR 0xD1, CHR 0xD2, CHR 0xD3, CHR 0xD4, CHR 0xD5, CHR 0xD6, CHR 0xD8,
      CHR 0xD9, CHR 0xDA, CHR 0xDB, CHR 0xDC, CHR 0xDD, CHR 0xDE]"

definition latin1_lower :: string where
  "latin1_lower =
     ''abcdefghijklmnopqrstuvwxyz'' @
     [CHR 0xE0, CHR 0xE1, CHR 0xE2, CHR 0xE3, CHR 0xE4, CHR 0xE5, CHR 0xE6, CHR 0xE7,
      CHR 0xE8, CHR 0xE9, CHR 0xEA, CHR 0xEB, CHR 0xEC, CHR 0xED, CHR 0xEE, CHR 0xEF,
      CHR 0xF0, CHR 0xF1, CHR 0xF2, CHR 0xF3, CHR 0xF4, CHR 0xF5, CHR 0xF6, CHR 0xF8,
      CHR 0xF9, CHR 0xFA, CHR 0xFB, CHR 0xFC, CHR 0xFD, CHR 0xFE]"

definition lower_unit :: "char \<Rightarrow> char" where
  "lower_unit c = (case map_of (zip latin1_upper latin1_lower) c of None \<Rightarrow> c | Some l \<Rightarrow> l)"

definition toLowerCase :: "string \<Rightarrow> string" where
  "toLowerCase s = map lower_unit s"

definition is_space_unit :: "char \<Rightarrow> bool" where
  \<comment> \<open>tab, line feed, vertical tab, form feed, carriage return, space, no-break space\<close>
  "is_space_unit c =
     (c \<in> set [CHR 0x09, CHR 0x0A, CHR 0x0B, CHR 0x0C, CHR 0x0D, CHR 0x20, CHR 0xA0])"

definition trim :: "string \<Rightarrow> string" where
  "trim s = rev (dropWhile is_space_unit (rev (dropWhile is_space_unit s)))"

fun str_includes :: "string \<Rightarrow> string \<Rightarrow> bool" where
  "str_includes [] needle = (needle = [])"
| "str_includes (c # cs) needle = (prefix needle (c # cs) \<or> str_includes cs needle)"

text \<open>
  A regular expression made of literal characters, with the \<open>i\<close> flag: two code units
  match when they are equal after the case folding, which on an ASCII pattern identifies
  exactly a letter and its other case.
\<close>

definition fold_unit :: "char \<Rightarrow> char" where
  "fold_unit c =
     (case map_of (zip ''abcdefghijklmnopqrstuvwxyz'' ''ABCDEFGHIJKLMNOPQRSTUVWXYZ'') c of
        None \<Rightarrow> c | Some u \<Rightarrow> u)"

definition test_literal_i :: "string \<Rightarrow> string \<Rightarrow> bool" where
  \<comment> \<open>\<open>/lit/i.test(s)\<close>\<close>
  "test_literal_i lit s = str_includes (map fold_unit s) (map fold_unit lit)"

definition test_anchored_i :: "string \<Rightarrow> string \<Rightarrow> bool" where
  \<comment> \<open>\<open>/^lit/i.test(s)\<close>\<close>
  "test_anchored_i lit s = prefix (map fold_unit lit) (map fold_unit s)"

section \<open>Configuration\<close>

text \<open>The environment variables the client reads; an unset variable is \<open>None\<close>.\<close>

record process_env =
  REACT_APP_NEWS_API_BASE :: "string option"
  REACT_APP_REACT_APP_NEWS_API_BASE :: "string option"
  REACT_APP_API_BASE :: "string option"
  REACT_APP_NEWS_APP_BASE :: "string option"
  REACT_APP_NEWS_API_KEY :: "string option"
  REACT_APP_REACT_APP_NEWSAPI_KEY :: "string option"

definition or_else :: "string option \<Rightarrow> string option \<Rightarrow> string option" where
  \<comment> \<open>\<open>a || b\<close> on values that are strings or \<open>undefined\<close>\<close>
  "or_else a b = (case a of None \<Rightarrow> b | Some s \<Rightarrow> if s = [] then b else a)"

definition DEFAULT_BASE :: string where
  "DEFAULT_BASE = ''https://newsapi.org/v2''"

definition stripTrailingSlashes :: "string option \<Rightarrow> string" where
  "stripTrailingSlashes s =
     (let t = (case or_else s (Some []) of None \<Rightarrow> [] | Some x \<Rightarrow> x)
      in rev (dropWhile (\<lambda>c. c = CHR ''/'') (rev t)))"

definition isProxyBase :: "string \<Rightarrow> bool" where
  "isProxyBase base = (\<not> test_literal_i ''newsapi.org'' base)"

record config =
  cfg_base :: string
  cfg_apiKey :: "string option"

definition getNewsApiConfig :: "process_env \<Rightarrow> config" where
  "getNewsApiConfig e =
     (let legacyBase =
            or_else (or_else (REACT_APP_REACT_APP_NEWS_API_BASE e) (REACT_APP_API_BASE e))
                    (REACT_APP_NEWS_APP_BASE e);
          baseRaw = or_else (or_else (REACT_APP_NEWS_API_BASE e) legacyBase) (Some DEFAULT_BASE);
          base = stripTrailingSlashes baseRaw;
          apiKey = or_else (REACT_APP_NEWS_API_KEY e) None
      in \<lparr>cfg_base = base, cfg_apiKey = apiKey\<rparr>)"

section \<open>Requests, responses and errors\<close>

text \<open>
  The URL \<open>`${base}/${path}${query ? `?${query}` : ''}`\<close> is kept in its three parts. The query
  is the entry list of the \<open>URLSearchParams\<close> object; its serialisation is empty exactly
  when the list is, so the \<open>?\<close> is present exactly when \<open>url_query\<close> is non-empty.
\<close>

record url =
  url_base :: string
  url_path :: string
  url_query :: "(string \<times> string) list"

text \<open>
  The argument of \<open>fetch\<close>. \<open>req_aborted\<close> is the state of \<open>controller.signal\<close> at the
  moment of the call.
\<close>

record request =
  req_url :: url
  req_method :: string
  req_headers :: "(string \<times> string) list"
  req_aborted :: bool

text \<open>
  A response: its status, and what \<open>res.json()\<close> gives (\<open>None\<close> when it rejects).
  \<open>res.ok\<close> is defined by the Fetch standard as a status from 200 to 299.
\<close>

record response =
  res_status :: nat
  res_json :: "json option"

definition res_ok :: "response \<Rightarrow> bool" where
  "res_ok res = (200 \<le> res_status res \<and> res_status res \<le> 299)"

datatype details = NoDetails | UrlMode url string | UrlOnly url | Payload json

text \<open>
  An object that is thrown: whether it is an \<open>instanceof Error\<close>, its \<open>name\<close> and \<open>message\<close>
  (strings, as on every exception of the platform and every \<open>new Error\<close>), and the properties
  \<open>code\<close>, \<open>status\<close> and \<open>details\<close> (\<open>Undefined\<close>, \<open>None\<close>, \<open>NoDetails\<close> when absent).
\<close>

record js_error =
  instanceofError :: bool
  err_name :: string
  err_message :: string
  err_code :: prim
  err_status :: "nat option"
  err_details :: details

datatype thrown = ThrownPrim prim | ThrownObj js_error

datatype fetch_outcome = Rejects thrown | Resolves response

text \<open>
  What the client does not define itself: the environment, the conversions between
  numbers and strings of the language, and \<open>fetch\<close> (the network, the upstream service, the
  15 second timer firing and a later abort of the caller's signal are all inside it).
\<close>

record platform =
  penv :: process_env
  StringToNumber :: "string \<Rightarrow> jsnum"
  NumberToString :: "jsnum \<Rightarrow> string"
  fetch :: "request \<Rightarrow> fetch_outcome"

text \<open>The effects of a call, in order.\<close>

datatype event = ConfigRead | TimerSet nat | NetworkRequest request | TimerCleared

text \<open>The caller's signal: none, or one whose \<open>aborted\<close> flag is given.\<close>

type_synonym abort_signal = "bool option"

section \<open>Conversions\<close>

fun ToNumber :: "platform \<Rightarrow> prim \<Rightarrow> jsnum" where
  "ToNumber P Undefined = NaN"
| "ToNumber P Null = Fin 0"
| "ToNumber P (Bool b) = (if b then Fin 1 else Fin 0)"
| "ToNumber P (Num n) = n"
| "ToNumber P (Str s) = StringToNumber P s"

fun ToString :: "platform \<Rightarrow> prim \<Rightarrow> string" where
  "ToString P Undefined = ''undefined''"
| "ToString P Null = ''null''"
| "ToString P (Bool b) = (if b then ''true'' else ''false'')"
| "ToString P (Num n) = NumberToString P n"
| "ToString P (Str s) = s"

fun join_comma :: "string option list \<Rightarrow> string option" where
  "join_comma [] = Some []"
| "join_comma [x] = x"
| "join_comma (x # y # ys) =
     (case x of None \<Rightarrow> None
      | Some s \<Rightarrow> (case join_comma (y # ys) of None \<Rightarrow> None | Some t \<Rightarrow> Some (s @ '','' @ t)))"

text \<open>
  \<open>String(v)\<close> on a JSON value; \<open>None\<close> when the conversion throws a \<open>TypeError\<close>. An array
  joins its elements with commas, \<open>null\<close> elements as the empty string. An object answers
  with the inherited \<open>toString\<close>, unless it owns a property of that name: a JSON value is
  not callable, and the conversion then finds no method that returns a primitive.
\<close>

fun json_ToString :: "platform \<Rightarrow> json \<Rightarrow> string option" where
  "json_ToString P JNull = Some ''null''"
| "json_ToString P (JBool b) = Some (if b then ''true'' else ''false'')"
| "json_ToString P (JNum n) = Some (NumberToString P n)"
| "json_ToString P (JStr s) = Some s"
| "json_ToString P (JArr xs) =
     join_comma (map (\<lambda>x. if x = JNull then Some [] else json_ToString P x) xs)"
| "json_ToString P (JObj kvs) =
     (if map_of kvs ''toString'' = None then Some ''[object Object]'' else None)"

definition new_Error :: "string \<Rightarrow> js_error" where
  "new_Error msg =
     \<lparr>instanceofError = True, err_name = ''Error'', err_message = msg,
      err_code = Undefined, err_status = None, err_details = NoDetails\<rparr>"

definition conversion_TypeError :: js_error where
  \<comment> \<open>what \<open>new Error(v)\<close> throws when \<open>v\<close> has no string conversion\<close>
  "conversion_TypeError =
     \<lparr>instanceofError = True, err_name = ''TypeError'',
      err_message = ''Cannot convert object to primitive value'',
      err_code = Undefined, err_status = None, err_details = NoDetails\<rparr>"

section \<open>The client\<close>

subsection \<open>Query strings\<close>

fun usp_set :: "string \<Rightarrow> string \<Rightarrow> (string \<times> string) list \<Rightarrow> (string \<times> string) list" where
  \<comment> \<open>\<open>URLSearchParams.set\<close>: replace the first entry of the key and drop its others, or append\<close>
  "usp_set k v [] = [(k, v)]"
| "usp_set k v ((k', v') # rest) =
     (if k' = k then (k, v) # filter (\<lambda>kv. fst kv \<noteq> k) rest
      else (k', v') # usp_set k v rest)"

definition buildQuery :: "platform \<Rightarrow> (string \<times> prim) list \<Rightarrow> (string \<times> string) list" where
  "buildQuery P params =
     foldl (\<lambda>searchParams (key, val).
              if val = Undefined \<or> val = Null \<or> val = Str [] then searchParams
              else usp_set key (ToString P val) searchParams)
           [] params"

subsection \<open>Error mapping\<close>

definition json_or :: "json option \<Rightarrow> json option \<Rightarrow> json option" where
  \<comment> \<open>\<open>a || b\<close> on values that may be \<open>undefined\<close>\<close>
  "json_or a b = (case a of None \<Rightarrow> b | Some v \<Rightarrow> if json_truthy v then a else b)"

definition mapApiError :: "nat \<Rightarrow> json \<Rightarrow> json" where
  "mapApiError status payload =
     (if status = 429 then JStr ''Rate limit reached. Please wait a minute before trying again.''
      else
        let message =
              (case json_or (json_or (opt_get payload ''message'') (opt_get payload ''error''))
                            (Some (JStr ''Unexpected error contacting news service.'')) of
                 None \<Rightarrow> JNull | Some m \<Rightarrow> m)
        in if status \<ge> 500 then
             JStr ''News service is currently unavailable. Please try again later.''
           else if status = 401 \<or> status = 403 then
             JStr ''Unauthorized: Please ensure a valid NewsAPI key is configured (direct mode) or proxy is authorized.''
           else message)"

fun thrown_truthy :: "thrown \<Rightarrow> bool" where
  "thrown_truthy (ThrownPrim p) = truthy p"
| "thrown_truthy (ThrownObj e) = True"

fun thrown_name :: "thrown \<Rightarrow> string option" where
  \<comment> \<open>\<open>err.name\<close>; a primitive has no such property\<close>
  "thrown_name (ThrownPrim p) = None"
| "thrown_name (ThrownObj e) = Some (err_name e)"

fun thrown_message :: "thrown \<Rightarrow> string option" where
  "thrown_message (ThrownPrim p) = None"
| "thrown_message (ThrownObj e) = Some (err_message e)"

definition isNetworkOrCORSError :: "thrown \<Rightarrow> bool" where
  "isNetworkOrCORSError err =
     (if \<not> thrown_truthy err then False
      else
        let msg = toLowerCase (case or_else (thrown_message err) (Some []) of
                                 None \<Rightarrow> [] | Some m \<Rightarrow> m)
        in thrown_name err = Some ''TypeError'' \<and>
           (str_includes msg ''failed to fetch'' \<or>
            str_includes msg ''networkerror'' \<or>
            str_includes msg ''load failed'' \<or>
            str_includes msg ''cors''))"

definition toUserFacingError :: "thrown \<Rightarrow> url \<Rightarrow> string \<Rightarrow> js_error" where
  "toUserFacingError err u mode =
     (if isNetworkOrCORSError err then
        (new_Error (''Network/CORS error: Unable to reach the news service ('' @ mode @
                    ''). If using a proxy, ensure REACT_APP_NEWS_API_BASE points to it and that the proxy is running. Otherwise verify CORS/network access and try again.''))
          \<lparr>err_code := Str ''NETWORK'', err_details := UrlMode u mode\<rparr>
      else
        (case err of
           ThrownObj e \<Rightarrow> if instanceofError e then e else new_Error ''Unexpected error occurred.''
         | ThrownPrim p \<Rightarrow> new_Error ''Unexpected error occurred.''))"

subsection \<open>The request\<close>

definition mode_of :: "bool \<Rightarrow> string" where
  \<comment> \<open>\<open>const mode = proxy ? 'proxy' : 'direct'\<close>\<close>
  "mode_of proxy = (if proxy then ''proxy'' else ''direct'')"

definition path_of :: "bool \<Rightarrow> string \<Rightarrow> string" where
  \<comment> \<open>\<open>const path = endpoint === 'search' ? (proxy ? 'search' : 'everything') : endpoint\<close>\<close>
  "path_of proxy endpoint =
     (if endpoint = ''search'' then (if proxy then ''search'' else ''everything'') else endpoint)"

definition has_http_scheme :: "string \<Rightarrow> bool" where
  \<comment> \<open>\<open>/^https?:\/\//i.test(base)\<close>\<close>
  "has_http_scheme base = (test_anchored_i ''http://'' base \<or> test_anchored_i ''https://'' base)"

definition doFetch ::
  "platform \<Rightarrow> string \<Rightarrow> (string \<times> prim) list \<Rightarrow> abort_signal \<Rightarrow> (js_error + json) \<times> event list" where
  "doFetch P endpoint params externalSignal =
     (let cfg = getNewsApiConfig (penv P);
          base = cfg_base cfg;
          apiKey = cfg_apiKey cfg;
          proxy = isProxyBase base;
          mode = mode_of proxy
      in
        if \<not> has_http_scheme base then
          (Inl ((new_Error ''Invalid NewsAPI base URL. Ensure REACT_APP_NEWS_API_BASE starts with http(s)://'')
                  \<lparr>err_code := Str ''CONFIG''\<rparr>),
           [ConfigRead])
        else if \<not> proxy \<and> apiKey = None then
          (Inl ((new_Error ''NewsAPI key is missing. Set REACT_APP_NEWS_API_KEY in your environment or use the proxy.'')
                  \<lparr>err_code := Str ''CONFIG''\<rparr>),
           [ConfigRead])
        else
          let path = path_of proxy endpoint;
              query = buildQuery P params;
              u = \<lparr>url_base = base, url_path = path, url_query = query\<rparr>;
              req = \<lparr>req_url = u, req_method = ''GET'',
                     req_headers = (if proxy then []
                                    else [(''X-Api-Key'', (case apiKey of None \<Rightarrow> [] | Some k \<Rightarrow> k))]),
                     req_aborted = (externalSignal = Some True)\<rparr>;
              evs = [ConfigRead, TimerSet 15000, NetworkRequest req, TimerCleared]
          in
            (case fetch P req of
               Rejects err \<Rightarrow> (Inl (toUserFacingError err u mode), evs)
             | Resolves res \<Rightarrow>
                 let data = (case res_json res of None \<Rightarrow> JNull | Some d \<Rightarrow> d)
                 in if \<not> res_ok res \<or> opt_get data ''status'' = Some (JStr ''error'') then
                      (case json_ToString P (mapApiError (res_status res) data) of
                         None \<Rightarrow> (Inl conversion_TypeError, evs)
                       | Some errMsg \<Rightarrow>
                           (Inl ((new_Error errMsg)
                                   \<lparr>err_status := Some (res_status res), err_details := Payload data\<rparr>),
                            evs))
                    else (Inr data, evs)))"

subsection \<open>The two operations\<close>

text \<open>
  The filter object a caller passes. A property the caller leaves out is \<open>Undefined\<close>, and
  a missing filter object is the record of seven \<open>Undefined\<close>; each operation reads the
  properties it destructures and ignores the others.
\<close>

record filters =
  f_country :: prim
  f_category :: prim
  f_q :: prim
  f_sortBy :: prim
  f_language :: prim
  f_pageSize :: prim
  f_page :: prim

record query_result =
  totalResults :: json
  articles :: json

definition default_to :: "prim \<Rightarrow> prim \<Rightarrow> prim" where
  \<comment> \<open>a destructuring default \<open>{ x = d }\<close>: taken when the property is \<open>undefined\<close>\<close>
  "default_to d v = (if v = Undefined then d else v)"

definition num_or :: "jsnum \<Rightarrow> jsnum \<Rightarrow> jsnum" where
  \<comment> \<open>\<open>a || b\<close> on numbers\<close>
  "num_or a b = (if num_truthy a then a else b)"

definition safePageSize :: "platform \<Rightarrow> prim \<Rightarrow> jsnum" where
  "safePageSize P pageSize = Math_min (Math_max (Fin 1) (num_or (ToNumber P pageSize) (Fin 10))) (Fin 100)"

definition safePage :: "platform \<Rightarrow> prim \<Rightarrow> jsnum" where
  "safePage P page = Math_max (Fin 1) (num_or (ToNumber P page) (Fin 1))"

definition normalize_result :: "json \<Rightarrow> query_result" where
  \<comment> \<open>\<open>{ totalResults: data?.totalResults || 0, articles: Array.isArray(data?.articles) ? data.articles : [] }\<close>\<close>
  "normalize_result data =
     \<lparr>totalResults =
        (case json_or (opt_get data ''totalResults'') (Some (JNum (Fin 0))) of
           None \<Rightarrow> JNull | Some v \<Rightarrow> v),
      articles =
        (case opt_get data ''articles'' of Some (JArr xs) \<Rightarrow> JArr xs | _ \<Rightarrow> JArr [])\<rparr>"

definition getTopHeadlines ::
  "platform \<Rightarrow> filters \<Rightarrow> abort_signal \<Rightarrow> (js_error + query_result) \<times> event list" where
  "getTopHeadlines P f signal =
     (let country = default_to (Str ''us'') (f_country f);
          category = f_category f;
          pageSize = default_to (Num (Fin 10)) (f_pageSize f);
          page = default_to (Num (Fin 1)) (f_page f);
          params = [(''country'', country),
                    (''pageSize'', Num (safePageSize P pageSize)),
                    (''page'', Num (safePage P page))]
                   @ (if truthy category then [(''category'', category)] else [])
      in case doFetch P ''top-headlines'' params signal of
           (Inl e, evs) \<Rightarrow> (Inl e, evs)
         | (Inr data, evs) \<Rightarrow> (Inr (normalize_result data), evs))"

definition searchEverything ::
  "platform \<Rightarrow> filters \<Rightarrow> abort_signal \<Rightarrow> (js_error + query_result) \<times> event list" where
  "searchEverything P f signal =
     (let sortBy = default_to (Str ''publishedAt'') (f_sortBy f);
          language = default_to (Str ''en'') (f_language f);
          pageSize = default_to (Num (Fin 10)) (f_pageSize f);
          page = default_to (Num (Fin 1)) (f_page f);
          query = trim (ToString P (if truthy (f_q f) then f_q f else Str []))
      in
        if query = [] then
          (Inl ((new_Error ''Please enter a search term.'') \<lparr>err_code := Str ''VALIDATION''\<rparr>), [])
        else
          let sort = (if sortBy \<in> {Str ''relevancy'', Str ''popularity'', Str ''publishedAt''}
                      then sortBy else Str ''publishedAt'');
              params = [(''q'', Str query),
                        (''sortBy'', sort),
                        (''language'', language),
                        (''pageSize'', Num (safePageSize P pageSize)),
                        (''page'', Num (safePage P page))]
          in case doFetch P ''search'' params signal of
               (Inl e, evs) \<Rightarrow> (Inl e, evs)
             | (Inr data, evs) \<Rightarrow> (Inr (normalize_result data), evs))"

section \<open>The copy of the client in \<open>frontend_app/src/services/newsApi.js\<close>\<close>

text \<open>
  This copy has no proxy mode: it always requires the key and always sends it, and it
  passes the logical endpoint through. \<open>buildQuery\<close> and \<open>isNetworkOrCORSError\<close> are the
  same text as above; the definitions that differ carry the suffix \<open>_svc\<close>.
\<close>

definition getNewsApiConfig_svc :: "process_env \<Rightarrow> config" where
  "getNewsApiConfig_svc e =
     (let baseRaw = or_else (REACT_APP_NEWS_API_BASE e) (Some DEFAULT_BASE);
          base = rev (dropWhile (\<lambda>c. c = CHR ''/'')
                        (rev (case baseRaw of None \<Rightarrow> ''undefined'' | Some x \<Rightarrow> x)));
          apiKey = or_else (REACT_APP_NEWS_API_KEY e) (REACT_APP_REACT_APP_NEWSAPI_KEY e)
      in \<lparr>cfg_base = base, cfg_apiKey = apiKey\<rparr>)"

definition mapApiError_svc :: "nat \<Rightarrow> json \<Rightarrow> json" where
  "mapApiError_svc status payload =
     (if status = 429 then JStr ''Rate limit reached. Please wait a minute before trying again.''
      else
        let message =
              (case json_or (json_or (opt_get payload ''message'') (opt_get payload ''error''))
                            (Some (JStr ''Unexpected error contacting news service.'')) of
                 None \<Rightarrow> JNull | Some m \<Rightarrow> m)
        in if status \<ge> 500 then
             JStr ''News service is currently unavailable. Please try again later.''
           else if status = 401 \<or> status = 403 then
             JStr ''Unauthorized: Please ensure a valid NewsAPI key is configured.''
           else message)"

definition toUserFacingError_svc :: "thrown \<Rightarrow> url \<Rightarrow> js_error" where
  "toUserFacingError_svc err u =
     (if isNetworkOrCORSError err then
        (new_Error ''Network/CORS error: Unable to reach the news service. This can occur if your browser blocked the request or the service is unavailable.'')
          \<lparr>err_code := Str ''NETWORK'', err_details := UrlOnly u\<rparr>
      else
        (case err of
           ThrownObj e \<Rightarrow> if instanceofError e then e else new_Error ''Unexpected error occurred.''
         | ThrownPrim p \<Rightarrow> new_Error ''Unexpected error occurred.''))"

definition doFetch_svc ::
  "platform \<Rightarrow> string \<Rightarrow> (string \<times> prim) list \<Rightarrow> abort_signal \<Rightarrow> (js_error + json) \<times> event list" where
  "doFetch_svc P endpoint params externalSignal =
     (let cfg = getNewsApiConfig_svc (penv P);
          base = cfg_base cfg;
          apiKey = cfg_apiKey cfg
      in
        if or_else apiKey None = None then
          (Inl ((new_Error ''NewsAPI key is missing. Set REACT_APP_NEWS_API_KEY in your environment.'')
                  \<lparr>err_code := Str ''CONFIG''\<rparr>),
           [ConfigRead])
        else if \<not> has_http_scheme base then
          (Inl ((new_Error ''Invalid NewsAPI base URL. Ensure REACT_APP_NEWS_API_BASE starts with http(s)://'')
                  \<lparr>err_code := Str ''CONFIG''\<rparr>),
           [ConfigRead])
        else
          let query = buildQuery P params;
              u = \<lparr>url_base = base, url_path = endpoint, url_query = query\<rparr>;
              req = \<lparr>req_url = u, req_method = ''GET'',
                     req_headers = [(''X-Api-Key'', (case apiKey of None \<Rightarrow> [] | Some k \<Rightarrow> k))],
                     req_aborted = (externalSignal = Some True)\<rparr>;
              evs = [ConfigRead, TimerSet 15000, NetworkRequest req, TimerCleared]
          in
            (case fetch P req of
               Rejects err \<Rightarrow> (Inl (toUserFacingError_svc err u), evs)
             | Resolves res \<Rightarrow>
                 let data = (case res_json res of None \<Rightarrow> JNull | Some d \<Rightarrow> d)
                 in if \<not> res_ok res \<or> opt_get data ''status'' = Some (JStr ''error'') then
                      (case json_ToString P (mapApiError_svc (res_status res) data) of
                         None \<Rightarrow> (Inl conversion_TypeError, evs)
                       | Some errMsg \<Rightarrow>
                           (Inl ((new_Error errMsg)
                                   \<lparr>err_status := Some (res_status res), err_details := Payload data\<rparr>),
                            evs))
                    else (Inr data, evs)))"

definition null_TypeError :: "string \<Rightarrow> js_error" where
  \<comment> \<open>what \<open>data.k\<close> throws when \<open>data\<close> is \<open>null\<close>\<close>
  "null_TypeError k =
     \<lparr>instanceofError = True, err_name = ''TypeError'',
      err_message = ''Cannot read properties of null (reading '' @ [CHR 0x27] @ k @ [CHR 0x27] @ '')'',
      err_code = Undefined, err_status = None, err_details = NoDetails\<rparr>"

definition normalize_result_svc :: "json \<Rightarrow> js_error + query_result" where
  \<comment> \<open>\<open>{ totalResults: data.totalResults || 0, articles: Array.isArray(data.articles) ? data.articles : [] }\<close>\<close>
  "normalize_result_svc data =
     (if data = JNull then Inl (null_TypeError ''totalResults'')
      else Inr
        \<lparr>totalResults =
           (case json_or (opt_get data ''totalResults'') (Some (JNum (Fin 0))) of
              None \<Rightarrow> JNull | Some v \<Rightarrow> v),
         articles =
           (case opt_get data ''articles'' of Some (JArr xs) \<Rightarrow> JArr xs | _ \<Rightarrow> JArr [])\<rparr>)"

definition getTopHeadlines_svc ::
  "platform \<Rightarrow> filters \<Rightarrow> abort_signal \<Rightarrow> (js_error + query_result) \<times> event list" where
  "getTopHeadlines_svc P f signal =
     (let country = default_to (Str ''us'') (f_country f);
          category = f_category f;
          pageSize = default_to (Num (Fin 10)) (f_pageSize f);
          page = default_to (Num (Fin 1)) (f_page f);
          params = [(''country'', country),
                    (''pageSize'', Num (safePageSize P pageSize)),
                    (''page'', Num (safePage P page))]
                   @ (if truthy category then [(''category'', category)] else [])
      in case doFetch_svc P ''top-headlines'' params signal of
           (Inl e, evs) \<Rightarrow> (Inl e, evs)
         | (Inr data, evs) \<Rightarrow> (normalize_result_svc data, evs))"

definition searchEverything_svc ::
  "platform \<Rightarrow> filters \<Rightarrow> abort_signal \<Rightarrow> (js_error + query_result) \<times> event list" where
  "searchEverything_svc P f signal =
     (let sortBy = default_to (Str ''publishedAt'') (f_sortBy f);
          language = default_to (Str ''en'') (f_language f);
          pageSize = default_to (Num (Fin 10)) (f_pageSize f);
          page = default_to (Num (Fin 1)) (f_page f);
          query = trim (ToString P (if truthy (f_q f) then f_q f else Str []))
      in
        if query = [] then
          (Inl ((new_Error ''Please enter a search term.'') \<lparr>err_code := Str ''VALIDATION''\<rparr>), [])
        else
          let sort = (if sortBy \<in> {Str ''relevancy'', Str ''popularity'', Str ''publishedAt''}
                      then sortBy else Str ''publishedAt'');
              params = [(''q'', Str query),
                        (''sortBy'', sort),
                        (''language'', language),
                        (''pageSize'', Num (safePageSize P pageSize)),
                        (''page'', Num (safePage P page))]
          in case doFetch_svc P ''everything'' params signal of
               (Inl e, evs) \<Rightarrow> (Inl e, evs)
             | (Inr data, evs) \<Rightarrow> (normalize_result_svc data, evs))"

section \<open>Observations\<close>

text \<open>The requests handed to \<open>fetch\<close> during a call, and a parameter of a request's query.\<close>

fun requests_of :: "event list \<Rightarrow> request list" where
  "requests_of [] = []"
| "requests_of (NetworkRequest r # evs) = r # requests_of evs"
| "requests_of (ev # evs) = requests_of evs"

definition query_param :: "request \<Rightarrow> string \<Rightarrow> string option" where
  "query_param req k = map_of (url_query (req_url req)) k"

text \<open>
  The specification's notion of a base URL that references the upstream host: the host
  name occurs in it, in any letter case.
\<close>

definition references_upstream_host :: "string \<Rightarrow> bool" where
  "references_upstream_host base =
     (\<exists>pre mid post. base = pre @ mid @ post \<and> toLowerCase mid = ''newsapi.org'')"

text \<open>
  The specification's "embedded message/error field, or a generic fallback": the payload's
  \<open>message\<close> when it is truthy, else its \<open>error\<close> when that is truthy, else the fallback text.
\<close>

definition embedded_message :: "json \<Rightarrow> json" where
  "embedded_message payload =
     (case opt_get payload ''message'' of
        Some m \<Rightarrow>
          if json_truthy m then m
          else (case opt_get payload ''error'' of
                  Some e \<Rightarrow> if json_truthy e then e
                            else JStr ''Unexpected error contacting news service.''
                | None \<Rightarrow> JStr ''Unexpected error contacting news service.'')
      | None \<Rightarrow>
          (case opt_get payload ''error'' of
             Some e \<Rightarrow> if json_truthy e then e
                       else JStr ''Unexpected error contacting news service.''
           | None \<Rightarrow> JStr ''Unexpected error contacting news service.''))"

subsection \<open>The parts of \<open>doFetch\<close> and of the two operations\<close>

text \<open>
  Names for the pieces of the definitions above, so that statements can speak of them:
  whether both configuration checks pass, the error thrown when one does not, the request
  that is built, what is made of the outcome of \<open>fetch\<close>, the two errors with a fixed
  shape, the parsed payload of a response, and the parameter lists of the two operations.
  The lemmas of section \<open>The structure of a call\<close> show that the client's functions are
  composed of exactly these.
\<close>

definition config_ok :: "platform \<Rightarrow> bool" where
  "config_ok P =
     (let cfg = getNewsApiConfig (penv P)
      in has_http_scheme (cfg_base cfg) \<and> (isProxyBase (cfg_base cfg) \<or> cfg_apiKey cfg \<noteq> None))"

definition config_error :: "platform \<Rightarrow> js_error" where
  "config_error P =
     (if \<not> has_http_scheme (cfg_base (getNewsApiConfig (penv P))) then
        (new_Error ''Invalid NewsAPI base URL. Ensure REACT_APP_NEWS_API_BASE starts with http(s)://'')
          \<lparr>err_code := Str ''CONFIG''\<rparr>
      else
        (new_Error ''NewsAPI key is missing. Set REACT_APP_NEWS_API_KEY in your environment or use the proxy.'')
          \<lparr>err_code := Str ''CONFIG''\<rparr>)"

definition request_for :: "platform \<Rightarrow> string \<Rightarrow> (string \<times> prim) list \<Rightarrow> abort_signal \<Rightarrow> request" where
  "request_for P endpoint params sg =
     (let cfg = getNewsApiConfig (penv P); proxy = isProxyBase (cfg_base cfg)
      in \<lparr>req_url = \<lparr>url_base = cfg_base cfg, url_path = path_of proxy endpoint,
                       url_query = buildQuery P params\<rparr>,
           req_method = ''GET'',
           req_headers = (if proxy then []
                          else [(''X-Api-Key'', (case cfg_apiKey cfg of None \<Rightarrow> [] | Some k \<Rightarrow> k))]),
           req_aborted = (sg = Some True)\<rparr>)"

definition settle :: "platform \<Rightarrow> request \<Rightarrow> fetch_outcome \<Rightarrow> js_error + json" where
  "settle P req outcome =
     (case outcome of
        Rejects err \<Rightarrow>
          Inl (toUserFacingError err (req_url req)
                 (mode_of (isProxyBase (cfg_base (getNewsApiConfig (penv P))))))
      | Resolves res \<Rightarrow>
          let data = (case res_json res of None \<Rightarrow> JNull | Some d \<Rightarrow> d)
          in if \<not> res_ok res \<or> opt_get data ''status'' = Some (JStr ''error'') then
               (case json_ToString P (mapApiError (res_status res) data) of
                  None \<Rightarrow> Inl conversion_TypeError
                | Some errMsg \<Rightarrow>
                    Inl ((new_Error errMsg)
                           \<lparr>err_status := Some (res_status res), err_details := Payload data\<rparr>))
             else Inr data)"

definition network_error :: "url \<Rightarrow> string \<Rightarrow> js_error" where
  "network_error u mode =
     \<lparr>instanceofError = True, err_name = ''Error'',
      err_message = ''Network/CORS error: Unable to reach the news service ('' @ mode @
        ''). If using a proxy, ensure REACT_APP_NEWS_API_BASE points to it and that the proxy is running. Otherwise verify CORS/network access and try again.'',
      err_code = Str ''NETWORK'', err_status = None, err_details = UrlMode u mode\<rparr>"

definition api_error :: "string \<Rightarrow> nat \<Rightarrow> json \<Rightarrow> js_error" where
  "api_error msg status payload =
     \<lparr>instanceofError = True, err_name = ''Error'', err_message = msg, err_code = Undefined,
      err_status = Some status, err_details = Payload payload\<rparr>"

definition payload_of :: "response \<Rightarrow> json" where
  "payload_of res = (case res_json res of None \<Rightarrow> JNull | Some d \<Rightarrow> d)"

definition headlines_params :: "platform \<Rightarrow> filters \<Rightarrow> (string \<times> prim) list" where
  "headlines_params P f =
     [(''country'', default_to (Str ''us'') (f_country f)),
      (''pageSize'', Num (safePageSize P (default_to (Num (Fin 10)) (f_pageSize f)))),
      (''page'', Num (safePage P (default_to (Num (Fin 1)) (f_page f))))]
     @ (if truthy (f_category f) then [(''category'', f_category f)] else [])"

definition search_query :: "platform \<Rightarrow> filters \<Rightarrow> string" where
  "search_query P f = trim (ToString P (if truthy (f_q f) then f_q f else Str []))"

definition search_params :: "platform \<Rightarrow> filters \<Rightarrow> (string \<times> prim) list" where
  "search_params P f =
     [(''q'', Str (search_query P f)),
      (''sortBy'',
         (if default_to (Str ''publishedAt'') (f_sortBy f)
               \<in> {Str ''relevancy'', Str ''popularity'', Str ''publishedAt''}
          then default_to (Str ''publishedAt'') (f_sortBy f) else Str ''publishedAt'')),
      (''language'', default_to (Str ''en'') (f_language f)),
      (''pageSize'', Num (safePageSize P (default_to (Num (Fin 10)) (f_pageSize f)))),
      (''page'', Num (safePage P (default_to (Num (Fin 1)) (f_page f))))]"

definition validation_error :: js_error where
  "validation_error = (new_Error ''Please enter a search term.'') \<lparr>err_code := Str ''VALIDATION''\<rparr>"

definition finish :: "js_error + json \<Rightarrow> js_error + query_result" where
  "finish r = (case r of Inl e \<Rightarrow> Inl e | Inr data \<Rightarrow> Inr (normalize_result data))"

definition finish_svc :: "js_error + json \<Rightarrow> js_error + query_result" where
  "finish_svc r = (case r of Inl e \<Rightarrow> Inl e | Inr data \<Rightarrow> normalize_result_svc data)"

text \<open>The values \<open>buildQuery\<close> keeps.\<close>

definition kept :: "prim \<Rightarrow> bool" where
  "kept v = (v \<noteq> Undefined \<and> v \<noteq> Null \<and> v \<noteq> Str [])"

subsection \<open>Two runs that differ in one component\<close>

text \<open>A platform with another key configured, and one whose \<open>fetch\<close> has a fixed outcome.\<close>

definition with_key :: "string \<Rightarrow> platform \<Rightarrow> platform" where
  "with_key k P = P\<lparr>penv := (penv P)\<lparr>REACT_APP_NEWS_API_KEY := Some k\<rparr>\<rparr>"

definition with_outcome :: "fetch_outcome \<Rightarrow> platform \<Rightarrow> platform" where
  "with_outcome outcome P = P\<lparr>fetch := (\<lambda>req. outcome)\<rparr>"

subsection \<open>Sample data\<close>

text \<open>
  A platform for the examples: an environment with the given base URL and key, a \<open>fetch\<close>
  with a fixed outcome, and conversions that agree with the language on the numbers and
  strings the examples use. The outcomes: a successful empty result, a 200 whose body is
  not JSON, a 429, a payload with the error indicator, an upstream message that repeats
  the key it was sent, a message that is an object without a string conversion, the exception of an aborted request (a \<open>DOMException\<close>, whose legacy
  \<open>code\<close> is 20) and the exception of a request the browser could not send.
\<close>

definition sample_env :: "string option \<Rightarrow> string option \<Rightarrow> process_env" where
  "sample_env b k =
     \<lparr>REACT_APP_NEWS_API_BASE = b, REACT_APP_REACT_APP_NEWS_API_BASE = None,
      REACT_APP_API_BASE = None, REACT_APP_NEWS_APP_BASE = None,
      REACT_APP_NEWS_API_KEY = k, REACT_APP_REACT_APP_NEWSAPI_KEY = None\<rparr>"

definition sample_NumberToString :: "jsnum \<Rightarrow> string" where
  "sample_NumberToString n =
     (case n of NaN \<Rightarrow> ''NaN'' | NegInf \<Rightarrow> ''-Infinity'' | PosInf \<Rightarrow> ''Infinity''
      | Fin r \<Rightarrow> if r = 1 then ''1'' else if r = 10 then ''10'' else if r = 100 then ''100''
                 else ''0'')"

definition sample_StringToNumber :: "string \<Rightarrow> jsnum" where
  "sample_StringToNumber s = (if s = [] then Fin 0 else NaN)"

definition sample_platform :: "string option \<Rightarrow> string option \<Rightarrow> fetch_outcome \<Rightarrow> platform" where
  "sample_platform b k outcome =
     \<lparr>penv = sample_env b k, StringToNumber = sample_StringToNumber,
      NumberToString = sample_NumberToString, fetch = (\<lambda>req. outcome)\<rparr>"

definition no_filters :: filters where
  "no_filters =
     \<lparr>f_country = Undefined, f_category = Undefined, f_q = Undefined, f_sortBy = Undefined,
      f_language = Undefined, f_pageSize = Undefined, f_page = Undefined\<rparr>"

definition sample_ok :: fetch_outcome where
  "sample_ok =
     Resolves \<lparr>res_status = 200,
               res_json = Some (JObj [(''status'', JStr ''ok''), (''totalResults'', JNum (Fin 0)),
                                      (''articles'', JArr [])])\<rparr>"

definition sample_non_json :: fetch_outcome where
  "sample_non_json = Resolves \<lparr>res_status = 200, res_json = None\<rparr>"

definition sample_rate_limited :: fetch_outcome where
  "sample_rate_limited = Resolves \<lparr>res_status = 429, res_json = None\<rparr>"

definition sample_upstream_error :: fetch_outcome where
  "sample_upstream_error =
     Resolves \<lparr>res_status = 200,
               res_json = Some (JObj [(''status'', JStr ''error''),
                                      (''message'', JStr ''The country is not supported.'')])\<rparr>"

definition sample_key_echo :: fetch_outcome where
  "sample_key_echo =
     Resolves \<lparr>res_status = 400,
               res_json = Some (JObj [(''status'', JStr ''error''),
                                      (''message'', JStr ''Request rejected for key secret'')])\<rparr>"

definition sample_inconvertible :: fetch_outcome where
  "sample_inconvertible =
     Resolves \<lparr>res_status = 400,
               res_json = Some (JObj [(''status'', JStr ''error''),
                                      (''message'', JObj [(''toString'', JNum (Fin 1))])])\<rparr>"

definition sample_abort_error :: js_error where
  "sample_abort_error =
     \<lparr>instanceofError = True, err_name = ''AbortError'',
      err_message = ''signal is aborted without reason'', err_code = Num (Fin 20),
      err_status = None, err_details = NoDetails\<rparr>"

definition sample_failed_to_fetch :: js_error where
  "sample_failed_to_fetch =
     \<lparr>instanceofError = True, err_name = ''TypeError'', err_message = ''Failed to fetch'',
      err_code = Undefined, err_status = None, err_details = NoDetails\<rparr>"

section \<open>Strings: the regular expressions as substring tests\<close>

lemma str_includes_iff: "str_includes s n \<longleftrightarrow> (\<exists>pre post. s = pre @ n @ post)"
proof (induction s)
  case Nil
  then show ?case by auto
next
  case (Cons c cs)
  show ?case
  proof
    assume "str_includes (c # cs) n"
    then consider "prefix n (c # cs)" | "str_includes cs n" by auto
    then show "\<exists>pre post. c # cs = pre @ n @ post"
    proof cases
      case 1
      then obtain post where "c # cs = n @ post" by (auto simp: prefix_def)
      then have "c # cs = [] @ n @ post" by simp
      then show ?thesis by blast
    next
      case 2
      with Cons.IH obtain pre post where "cs = pre @ n @ post" by blast
      then have "c # cs = (c # pre) @ n @ post" by simp
      then show ?thesis by blast
    qed
  next
    assume "\<exists>pre post. c # cs = pre @ n @ post"
    then obtain pre post where d: "c # cs = pre @ n @ post" by blast
    show "str_includes (c # cs) n"
    proof (cases pre)
      case Nil
      with d have "prefix n (c # cs)" by (simp add: prefix_def)
      then show ?thesis by simp
    next
      case (Cons p ps)
      with d have "cs = ps @ n @ post" by simp
      with Cons.IH have "str_includes cs n" by blast
      then show ?thesis by simp
    qed
  qed
qed

lemma fold_unit_upper:
  "(fold_unit c = CHR ''N'') = (c = CHR ''n'' \<or> c = CHR ''N'')"
  "(fold_unit c = CHR ''E'') = (c = CHR ''e'' \<or> c = CHR ''E'')"
  "(fold_unit c = CHR ''W'') = (c = CHR ''w'' \<or> c = CHR ''W'')"
  "(fold_unit c = CHR ''S'') = (c = CHR ''s'' \<or> c = CHR ''S'')"
  "(fold_unit c = CHR ''A'') = (c = CHR ''a'' \<or> c = CHR ''A'')"
  "(fold_unit c = CHR ''P'') = (c = CHR ''p'' \<or> c = CHR ''P'')"
  "(fold_unit c = CHR ''I'') = (c = CHR ''i'' \<or> c = CHR ''I'')"
  "(fold_unit c = CHR ''O'') = (c = CHR ''o'' \<or> c = CHR ''O'')"
  "(fold_unit c = CHR ''R'') = (c = CHR ''r'' \<or> c = CHR ''R'')"
  "(fold_unit c = CHR ''G'') = (c = CHR ''g'' \<or> c = CHR ''G'')"
  "(fold_unit c = CHR ''.'') = (c = CHR ''.'')"
  unfolding fold_unit_def by (simp_all split: if_splits)

lemma lower_unit_lower:
  "(lower_unit c = CHR ''n'') = (c = CHR ''n'' \<or> c = CHR ''N'')"
  "(lower_unit c = CHR ''e'') = (c = CHR ''e'' \<or> c = CHR ''E'')"
  "(lower_unit c = CHR ''w'') = (c = CHR ''w'' \<or> c = CHR ''W'')"
  "(lower_unit c = CHR ''s'') = (c = CHR ''s'' \<or> c = CHR ''S'')"
  "(lower_unit c = CHR ''a'') = (c = CHR ''a'' \<or> c = CHR ''A'')"
  "(lower_unit c = CHR ''p'') = (c = CHR ''p'' \<or> c = CHR ''P'')"
  "(lower_unit c = CHR ''i'') = (c = CHR ''i'' \<or> c = CHR ''I'')"
  "(lower_unit c = CHR ''o'') = (c = CHR ''o'' \<or> c = CHR ''O'')"
  "(lower_unit c = CHR ''r'') = (c = CHR ''r'' \<or> c = CHR ''R'')"
  "(lower_unit c = CHR ''g'') = (c = CHR ''g'' \<or> c = CHR ''G'')"
  "(lower_unit c = CHR ''.'') = (c = CHR ''.'')"
  unfolding lower_unit_def latin1_upper_def latin1_lower_def by (simp_all split: if_splits)

lemma map_eq_pointwise:
  "(\<And>x y. y \<in> set ys \<Longrightarrow> (f x = g y) = (h x = y)) \<Longrightarrow> (map f xs = map g ys) = (map h xs = ys)"
proof (induction ys arbitrary: xs)
  case Nil
  then show ?case by simp
next
  case (Cons y ys)
  show ?case
  proof (cases xs)
    case Nil
    then show ?thesis by simp
  next
    case (Cons x xs')
    have "(f x = g y) = (h x = y)" using Cons.prems by simp
    moreover have "(map f xs' = map g ys) = (map h xs' = ys)"
      using Cons.IH Cons.prems by simp
    ultimately show ?thesis using Cons by simp
  qed
qed

lemma fold_eq_lower_host:
  "(map fold_unit mid = map fold_unit ''newsapi.org'') = (toLowerCase mid = ''newsapi.org'')"
  unfolding toLowerCase_def
proof (rule map_eq_pointwise)
  fix x y :: char
  assume "y \<in> set ''newsapi.org''"
  then consider "y = CHR ''n''" | "y = CHR ''e''" | "y = CHR ''w''" | "y = CHR ''s''"
    | "y = CHR ''a''" | "y = CHR ''p''" | "y = CHR ''i''" | "y = CHR ''.''"
    | "y = CHR ''o''" | "y = CHR ''r''" | "y = CHR ''g''"
    by auto
  then show "(fold_unit x = fold_unit y) = (lower_unit x = y)"
    by cases (simp_all add: fold_unit_upper lower_unit_lower, simp_all add: fold_unit_def)
qed

lemma map_eq_append3:
  assumes "map f s = a @ b @ c"
  obtains pre mid post where "s = pre @ mid @ post" "map f mid = b"
proof -
  from assms have "\<exists>us vs. s = us @ vs \<and> a = map f us \<and> b @ c = map f vs"
    by (simp add: map_eq_append_conv)
  then obtain pre rest where 1: "s = pre @ rest" and 2: "map f rest = b @ c"
    by auto
  from 2 have "\<exists>us vs. rest = us @ vs \<and> b = map f us \<and> c = map f vs"
    by (simp add: map_eq_append_conv)
  then obtain mid post where 3: "rest = mid @ post" and 4: "map f mid = b"
    by auto
  from 1 3 have "s = pre @ mid @ post" by simp
  with 4 that show thesis by blast
qed

lemma isProxyBase_iff: "isProxyBase base = (\<not> references_upstream_host base)"
proof -
  have "test_literal_i ''newsapi.org'' base = references_upstream_host base"
  proof
    assume "test_literal_i ''newsapi.org'' base"
    then obtain pre' post' where
      "map fold_unit base = pre' @ map fold_unit ''newsapi.org'' @ post'"
      unfolding test_literal_i_def str_includes_iff by blast
    then obtain pre mid post where
      "base = pre @ mid @ post" "map fold_unit mid = map fold_unit ''newsapi.org''"
      using map_eq_append3 by blast
    then show "references_upstream_host base"
      unfolding references_upstream_host_def using fold_eq_lower_host by blast
  next
    assume "references_upstream_host base"
    then obtain pre mid post where
      d: "base = pre @ mid @ post" and m: "toLowerCase mid = ''newsapi.org''"
      unfolding references_upstream_host_def by blast
    from m have "map fold_unit mid = map fold_unit ''newsapi.org''"
      using fold_eq_lower_host by blast
    with d have "map fold_unit base =
        map fold_unit pre @ map fold_unit ''newsapi.org'' @ map fold_unit post"
      by simp
    then show "test_literal_i ''newsapi.org'' base"
      unfolding test_literal_i_def str_includes_iff by blast
  qed
  then show ?thesis by (simp add: isProxyBase_def)
qed

section \<open>The configured key\<close>

lemma cfg_apiKey_None_iff:
  "(cfg_apiKey (getNewsApiConfig e) = None)
     = (REACT_APP_NEWS_API_KEY e = None \<or> REACT_APP_NEWS_API_KEY e = Some [])"
  by (auto simp: getNewsApiConfig_def Let_def or_else_def split: option.splits)

lemma cfg_apiKey_Some_iff:
  "(cfg_apiKey (getNewsApiConfig e) = Some k) = (REACT_APP_NEWS_API_KEY e = Some k \<and> k \<noteq> [])"
  by (auto simp: getNewsApiConfig_def Let_def or_else_def split: option.splits)

section \<open>The structure of a call\<close>

lemma doFetch_parts:
  "doFetch P endpoint params sg =
     (if config_ok P then
        (settle P (request_for P endpoint params sg) (fetch P (request_for P endpoint params sg)),
         [ConfigRead, TimerSet 15000, NetworkRequest (request_for P endpoint params sg), TimerCleared])
      else (Inl (config_error P), [ConfigRead]))"
proof (cases "has_http_scheme (cfg_base (getNewsApiConfig (penv P)))")
  case False
  then show ?thesis by (simp add: doFetch_def config_ok_def config_error_def Let_def)
next
  case scheme: True
  show ?thesis
  proof (cases "\<not> isProxyBase (cfg_base (getNewsApiConfig (penv P)))
                \<and> cfg_apiKey (getNewsApiConfig (penv P)) = None")
    case True
    then show ?thesis
      using scheme by (simp add: doFetch_def config_ok_def config_error_def Let_def)
  next
    case False
    then have ok: "config_ok P" using scheme by (auto simp: config_ok_def Let_def)
    show ?thesis
      unfolding doFetch_def Let_def
      using scheme False ok
      by (cases "fetch P (request_for P endpoint params sg)")
         (simp_all add: settle_def Let_def request_for_def split: option.split)
  qed
qed

lemma case_finish:
  "(case p of (Inl e, evs) \<Rightarrow> (Inl e, evs) | (Inr d, evs) \<Rightarrow> (Inr (normalize_result d), evs))
     = (finish (fst p), snd p)"
  by (simp add: finish_def split: prod.split sum.split)

lemma getTopHeadlines_parts:
  "getTopHeadlines P f sg =
     (finish (fst (doFetch P ''top-headlines'' (headlines_params P f) sg)),
      snd (doFetch P ''top-headlines'' (headlines_params P f) sg))"
  unfolding getTopHeadlines_def headlines_params_def Let_def case_finish
  by (rule refl)

lemma searchEverything_parts:
  "searchEverything P f sg =
     (if search_query P f = [] then (Inl validation_error, [])
      else (finish (fst (doFetch P ''search'' (search_params P f) sg)),
            snd (doFetch P ''search'' (search_params P f) sg)))"
  unfolding searchEverything_def search_params_def search_query_def validation_error_def
    Let_def case_finish
  by (rule refl)

lemma finish_Inl: "finish (Inl e) = Inl e"
  by (simp add: finish_def)

lemma requests_of_doFetch:
  "requests_of (snd (doFetch P endpoint params sg)) =
     (if config_ok P then [request_for P endpoint params sg] else [])"
  by (simp add: doFetch_parts)

lemma requests_of_getTopHeadlines:
  "requests_of (snd (getTopHeadlines P f sg)) =
     (if config_ok P then [request_for P ''top-headlines'' (headlines_params P f) sg] else [])"
  by (simp add: getTopHeadlines_parts doFetch_parts)

lemma requests_of_searchEverything:
  "requests_of (snd (searchEverything P f sg)) =
     (if search_query P f \<noteq> [] \<and> config_ok P
      then [request_for P ''search'' (search_params P f) sg] else [])"
  by (simp add: searchEverything_parts doFetch_parts)

lemma search_query_blank: "f_q f = Str s \<Longrightarrow> trim s = [] \<Longrightarrow> search_query P f = []"
  by (cases "s = []") (simp_all add: search_query_def trim_def)

text \<open>The same for the copy in \<open>services/newsApi.js\<close>.\<close>

lemma case_finish_svc:
  "(case p of (Inl e, evs) \<Rightarrow> (Inl e, evs) | (Inr d, evs) \<Rightarrow> (normalize_result_svc d, evs))
     = (finish_svc (fst p), snd p)"
  by (simp add: finish_svc_def split: prod.split sum.split)

lemma getTopHeadlines_svc_parts:
  "getTopHeadlines_svc P f sg =
     (finish_svc (fst (doFetch_svc P ''top-headlines'' (headlines_params P f) sg)),
      snd (doFetch_svc P ''top-headlines'' (headlines_params P f) sg))"
  unfolding getTopHeadlines_svc_def headlines_params_def Let_def case_finish_svc
  by (rule refl)

lemma searchEverything_svc_parts:
  "searchEverything_svc P f sg =
     (if search_query P f = [] then (Inl validation_error, [])
      else (finish_svc (fst (doFetch_svc P ''everything'' (search_params P f) sg)),
            snd (doFetch_svc P ''everything'' (search_params P f) sg)))"
  unfolding searchEverything_svc_def search_params_def search_query_def validation_error_def
    Let_def case_finish_svc
  by (rule refl)

lemma searchEverything_svc_blank:
  "search_query P f = [] \<Longrightarrow> searchEverything_svc P f sg = (Inl validation_error, [])"
  unfolding searchEverything_svc_def Let_def search_query_def validation_error_def
  by (simp only: simp_thms if_True)

lemma doFetch_svc_always_sends_key:
  "\<forall>req \<in> set (requests_of (snd (doFetch_svc P endpoint params sg))).
     \<exists>k. k \<noteq> [] \<and> req_headers req = [(''X-Api-Key'', k)]"
  unfolding doFetch_svc_def Let_def
  by (auto simp: or_else_def split: fetch_outcome.splits option.splits if_splits)

section \<open>The query string\<close>

lemma usp_set_fresh: "k \<notin> fst ` set sp \<Longrightarrow> usp_set k v sp = sp @ [(k, v)]"
  by (induction sp) auto

lemma foldl_buildQuery:
  "distinct (map fst params) \<Longrightarrow> fst ` set acc \<inter> fst ` set params = {} \<Longrightarrow>
   foldl (\<lambda>searchParams (key, val).
            if val = Undefined \<or> val = Null \<or> val = Str [] then searchParams
            else usp_set key (ToString P val) searchParams) acc params
   = acc @ map (\<lambda>(k, v). (k, ToString P v)) (filter (\<lambda>(k, v). kept v) params)"
proof (induction params arbitrary: acc)
  case Nil
  then show ?case by simp
next
  case (Cons kv params)
  obtain k v where kv: "kv = (k, v)" by (cases kv)
  show ?case
  proof (cases "kept v")
    case False
    then have "v = Undefined \<or> v = Null \<or> v = Str []" by (auto simp: kept_def)
    moreover have "fst ` set acc \<inter> fst ` set params = {}" using Cons.prems by auto
    moreover have "distinct (map fst params)" using Cons.prems by simp
    ultimately show ?thesis using Cons.IH[of acc] False kv by auto
  next
    case True
    then have nk: "\<not> (v = Undefined \<or> v = Null \<or> v = Str [])" by (auto simp: kept_def)
    have fresh: "k \<notin> fst ` set acc" using Cons.prems kv by auto
    have d: "distinct (map fst params)" using Cons.prems by simp
    have "fst ` set (acc @ [(k, ToString P v)]) \<inter> fst ` set params = {}"
      using Cons.prems kv by auto
    from Cons.IH[OF d this] show ?thesis
      using nk True kv by (simp add: usp_set_fresh[OF fresh])
  qed
qed

lemma buildQuery_distinct:
  "distinct (map fst params) \<Longrightarrow>
   buildQuery P params = map (\<lambda>(k, v). (k, ToString P v)) (filter (\<lambda>(k, v). kept v) params)"
  unfolding buildQuery_def using foldl_buildQuery[of params "[]" P] by simp

lemma map_of_buildQuery:
  assumes "distinct (map fst params)"
  shows "map_of (buildQuery P params) k =
         (case map_of params k of None \<Rightarrow> None
          | Some v \<Rightarrow> if kept v then Some (ToString P v) else None)"
  unfolding buildQuery_distinct[OF assms] using assms
proof (induction params)
  case Nil
  then show ?case by simp
next
  case (Cons kv params)
  obtain k' v' where kv: "kv = (k', v')" by (cases kv)
  have notin: "k' \<notin> fst ` set params" using Cons.prems kv by auto
  then have none: "map_of params k' = None" by (simp add: map_of_eq_None_iff)
  show ?case using Cons kv none by (auto split: option.splits)
qed

lemma headlines_query:
  "query_param (request_for P ''top-headlines'' (headlines_params P f) sg) ''pageSize''
     = Some (NumberToString P (safePageSize P (default_to (Num (Fin 10)) (f_pageSize f))))"
  "query_param (request_for P ''top-headlines'' (headlines_params P f) sg) ''page''
     = Some (NumberToString P (safePage P (default_to (Num (Fin 1)) (f_page f))))"
  by (simp_all add: query_param_def request_for_def Let_def map_of_buildQuery headlines_params_def kept_def)

lemma search_query_params:
  "query_param (request_for P ''search'' (search_params P f) sg) ''pageSize''
     = Some (NumberToString P (safePageSize P (default_to (Num (Fin 10)) (f_pageSize f))))"
  "query_param (request_for P ''search'' (search_params P f) sg) ''page''
     = Some (NumberToString P (safePage P (default_to (Num (Fin 1)) (f_page f))))"
  by (simp_all add: query_param_def request_for_def Let_def map_of_buildQuery search_params_def kept_def)

section \<open>Page size and page number\<close>

lemma safePageSize_range: "\<exists>r. safePageSize P v = Fin r \<and> 1 \<le> r \<and> r \<le> 100"
  by (cases "ToNumber P v") (auto simp: safePageSize_def num_or_def Math_max_def Math_min_def)

lemma safePageSize_500: "safePageSize P (Num (Fin 500)) = Fin 100"
  by (simp add: safePageSize_def num_or_def Math_max_def Math_min_def)

lemma safePageSize_negative: "r < 0 \<Longrightarrow> safePageSize P (Num (Fin r)) = Fin 1"
  by (simp add: safePageSize_def num_or_def Math_max_def Math_min_def)

lemma safePageSize_zero: "safePageSize P (Num (Fin 0)) = Fin 10"
  by (simp add: safePageSize_def num_or_def Math_max_def Math_min_def)

lemma safePageSize_falsy:
  "ToNumber P v = NaN \<or> ToNumber P v = Fin 0 \<Longrightarrow> safePageSize P v = Fin 10"
  by (auto simp: safePageSize_def num_or_def Math_max_def Math_min_def)

lemma safePageSize_one_iff:
  "(safePageSize P v = Fin 1) =
   (ToNumber P v = NegInf \<or> (\<exists>r. ToNumber P v = Fin r \<and> r \<noteq> 0 \<and> r \<le> 1))"
  by (cases "ToNumber P v") (auto simp: safePageSize_def num_or_def Math_max_def Math_min_def)

lemma safePage_range: "safePage P v = PosInf \<or> (\<exists>r. safePage P v = Fin r \<and> 1 \<le> r)"
  by (cases "ToNumber P v") (auto simp: safePage_def num_or_def Math_max_def)

lemma safePage_falsy:
  "ToNumber P v = NaN \<or> ToNumber P v = Fin 0 \<Longrightarrow> safePage P v = Fin 1"
  by (auto simp: safePage_def num_or_def Math_max_def)

lemma default_falsy:
  "ToNumber P v = NaN \<or> ToNumber P v = Fin 0 \<Longrightarrow> safePageSize P (default_to (Num (Fin 10)) v) = Fin 10"
  by (cases v) (auto simp: default_to_def safePageSize_def num_or_def Math_max_def Math_min_def)

lemma safePage_default_falsy:
  "ToNumber P v = NaN \<or> ToNumber P v = Fin 0 \<Longrightarrow> safePage P (default_to (Num (Fin 1)) v) = Fin 1"
  by (cases v) (auto simp: default_to_def safePage_def num_or_def Math_max_def)

section \<open>Responses\<close>

lemma settle_success:
  assumes "res_ok res" and "opt_get (payload_of res) ''status'' \<noteq> Some (JStr ''error'')"
  shows "settle P req (Resolves res) = Inr (payload_of res)"
  using assms by (simp add: settle_def payload_of_def Let_def)

lemma settle_error_response:
  assumes "\<not> res_ok res \<or> opt_get (payload_of res) ''status'' = Some (JStr ''error'')"
  shows "settle P req (Resolves res) =
     (case json_ToString P (mapApiError (res_status res) (payload_of res)) of
        None \<Rightarrow> Inl conversion_TypeError
      | Some m \<Rightarrow> Inl (api_error m (res_status res) (payload_of res)))"
  using assms
  by (auto simp: settle_def payload_of_def Let_def api_error_def new_Error_def
      split: option.split)

lemma mapApiError_cases:
  "mapApiError st d =
     (if st = 429 then JStr ''Rate limit reached. Please wait a minute before trying again.''
      else if 500 \<le> st then JStr ''News service is currently unavailable. Please try again later.''
      else if st = 401 \<or> st = 403 then
        JStr ''Unauthorized: Please ensure a valid NewsAPI key is configured (direct mode) or proxy is authorized.''
      else embedded_message d)"
  by (simp add: mapApiError_def embedded_message_def json_or_def Let_def split: option.split)

lemma articles_normalize_result:
  "articles (normalize_result d) =
     (case opt_get d ''articles'' of Some (JArr xs) \<Rightarrow> JArr xs | _ \<Rightarrow> JArr [])"
  by (simp add: normalize_result_def)

lemma articles_is_sequence: "\<exists>xs. articles (normalize_result d) = JArr xs"
  by (simp add: normalize_result_def split: option.split json.split)

lemma totalResults_normalize_result:
  "totalResults (normalize_result d) =
     (case opt_get d ''totalResults'' of
        Some v \<Rightarrow> if json_truthy v then v else JNum (Fin 0)
      | None \<Rightarrow> JNum (Fin 0))"
  by (simp add: normalize_result_def json_or_def split: option.split)

lemma getTopHeadlines_success:
  assumes "config_ok P"
    and "fetch P (request_for P ''top-headlines'' (headlines_params P f) sg) = Resolves res"
    and "res_ok res" and "opt_get (payload_of res) ''status'' \<noteq> Some (JStr ''error'')"
  shows "fst (getTopHeadlines P f sg) = Inr (normalize_result (payload_of res))"
  using assms by (simp add: getTopHeadlines_parts doFetch_parts settle_success finish_def)

lemma searchEverything_success:
  assumes "config_ok P" and "search_query P f \<noteq> []"
    and "fetch P (request_for P ''search'' (search_params P f) sg) = Resolves res"
    and "res_ok res" and "opt_get (payload_of res) ''status'' \<noteq> Some (JStr ''error'')"
  shows "fst (searchEverything P f sg) = Inr (normalize_result (payload_of res))"
  using assms by (simp add: searchEverything_parts doFetch_parts settle_success finish_def)

lemma results_are_normalized:
  "fst (getTopHeadlines P f sg) = Inr r \<Longrightarrow> \<exists>d. r = normalize_result d"
  "fst (searchEverything P f sg) = Inr r \<Longrightarrow> \<exists>d. r = normalize_result d"
  by (auto simp: getTopHeadlines_parts searchEverything_parts finish_def
      split: sum.splits if_splits)

section \<open>Transport failures\<close>

lemma isNetworkOrCORSError_iff:
  "isNetworkOrCORSError err =
     (\<exists>x. err = ThrownObj x \<and> err_name x = ''TypeError''
          \<and> (str_includes (toLowerCase (err_message x)) ''failed to fetch''
             \<or> str_includes (toLowerCase (err_message x)) ''networkerror''
             \<or> str_includes (toLowerCase (err_message x)) ''load failed''
             \<or> str_includes (toLowerCase (err_message x)) ''cors''))"
proof (cases err)
  case (ThrownPrim p)
  then show ?thesis by (simp add: isNetworkOrCORSError_def Let_def)
next
  case (ThrownObj x)
  have "(case or_else (Some (err_message x)) (Some []) of None \<Rightarrow> [] | Some m \<Rightarrow> m) = err_message x"
    by (simp add: or_else_def)
  then show ?thesis using ThrownObj by (simp add: isNetworkOrCORSError_def Let_def)
qed

lemma toUserFacingError_cases:
  "toUserFacingError err u mode =
     (if isNetworkOrCORSError err then network_error u mode
      else (case err of
              ThrownObj x \<Rightarrow> if instanceofError x then x else new_Error ''Unexpected error occurred.''
            | ThrownPrim p \<Rightarrow> new_Error ''Unexpected error occurred.''))"
  by (simp add: toUserFacingError_def network_error_def new_Error_def)

lemma err_code_config_error: "err_code (config_error P) = Str ''CONFIG''"
  by (simp add: config_error_def new_Error_def)

section \<open>The request\<close>

lemma request_for_headers:
  assumes "config_ok P"
  shows "req_method (request_for P endpoint params sg) = ''GET''"
    and "url_base (req_url (request_for P endpoint params sg)) = cfg_base (getNewsApiConfig (penv P))"
    and "references_upstream_host (cfg_base (getNewsApiConfig (penv P))) \<Longrightarrow>
         \<exists>k. k \<noteq> [] \<and> REACT_APP_NEWS_API_KEY (penv P) = Some k
             \<and> req_headers (request_for P endpoint params sg) = [(''X-Api-Key'', k)]"
    and "\<not> references_upstream_host (cfg_base (getNewsApiConfig (penv P))) \<Longrightarrow>
         req_headers (request_for P endpoint params sg) = []"
proof -
  show "req_method (request_for P endpoint params sg) = ''GET''"
    by (simp add: request_for_def Let_def)
  show "url_base (req_url (request_for P endpoint params sg)) = cfg_base (getNewsApiConfig (penv P))"
    by (simp add: request_for_def Let_def)
  show "req_headers (request_for P endpoint params sg) = []"
    if "\<not> references_upstream_host (cfg_base (getNewsApiConfig (penv P)))"
    using that by (simp add: request_for_def Let_def isProxyBase_iff)
  show "\<exists>k. k \<noteq> [] \<and> REACT_APP_NEWS_API_KEY (penv P) = Some k
             \<and> req_headers (request_for P endpoint params sg) = [(''X-Api-Key'', k)]"
    if d: "references_upstream_host (cfg_base (getNewsApiConfig (penv P)))"
  proof -
    from assms d obtain k where k: "cfg_apiKey (getNewsApiConfig (penv P)) = Some k"
      by (auto simp: config_ok_def Let_def isProxyBase_iff)
    then have "REACT_APP_NEWS_API_KEY (penv P) = Some k \<and> k \<noteq> []"
      by (simp add: cfg_apiKey_Some_iff)
    moreover have "req_headers (request_for P endpoint params sg) = [(''X-Api-Key'', k)]"
      using d k by (simp add: request_for_def Let_def isProxyBase_iff)
    ultimately show ?thesis by blast
  qed
qed

section \<open>Independence of the key's value\<close>

lemma cfg_base_with_key:
  "cfg_base (getNewsApiConfig (penv (with_key k P))) = cfg_base (getNewsApiConfig (penv P))"
  by (simp add: with_key_def getNewsApiConfig_def Let_def)

lemma cfg_apiKey_with_key:
  "k \<noteq> [] \<Longrightarrow> cfg_apiKey (getNewsApiConfig (penv (with_key k P))) = Some k"
  by (simp add: with_key_def getNewsApiConfig_def Let_def or_else_def)

lemma config_ok_with_key:
  "k \<noteq> [] \<Longrightarrow> config_ok (with_key k P) = has_http_scheme (cfg_base (getNewsApiConfig (penv P)))"
  by (simp add: config_ok_def Let_def cfg_base_with_key cfg_apiKey_with_key)

lemma config_error_with_key: "config_error (with_key k P) = config_error P"
  by (simp add: config_error_def cfg_base_with_key)

lemma ToString_with_key: "ToString (with_key k P) v = ToString P v"
  by (cases v) (simp_all add: with_key_def)

lemma ToNumber_with_key: "ToNumber (with_key k P) v = ToNumber P v"
  by (cases v) (simp_all add: with_key_def)

lemma json_ToString_with_key: "json_ToString (with_key k P) j = json_ToString P j"
proof (induction j)
  case (JArr xs)
  have m: "map (\<lambda>x. if x = JNull then Some [] else json_ToString (with_key k P) x) xs
      = map (\<lambda>x. if x = JNull then Some [] else json_ToString P x) xs"
    using JArr by (intro map_cong) auto
  show ?case by (simp only: json_ToString.simps m)
qed (simp_all add: with_key_def)

lemma buildQuery_with_key: "buildQuery (with_key k P) ps = buildQuery P ps"
  unfolding buildQuery_def ToString_with_key by (rule refl)

lemma req_url_with_key:
  "req_url (request_for (with_key k P) ep ps sg) = req_url (request_for P ep ps sg)"
  by (simp add: request_for_def Let_def cfg_base_with_key buildQuery_with_key)

lemma settle_with_key: "settle (with_key k P) req out = settle P req out"
  unfolding settle_def cfg_base_with_key json_ToString_with_key by (rule refl)

lemma settle_req_url: "req_url r = req_url r' \<Longrightarrow> settle P r out = settle P r' out"
  by (cases out) (simp_all add: settle_def)

lemma headlines_params_with_key: "headlines_params (with_key k P) f = headlines_params P f"
  unfolding headlines_params_def safePageSize_def safePage_def ToNumber_with_key
  by (rule refl)

lemma search_query_with_key: "search_query (with_key k P) f = search_query P f"
  unfolding search_query_def ToString_with_key by (rule refl)

lemma search_params_with_key: "search_params (with_key k P) f = search_params P f"
  unfolding search_params_def safePageSize_def safePage_def ToNumber_with_key search_query_with_key
  by (rule refl)

lemma fetch_with_key: "fetch (with_key k (with_outcome out P)) req = out"
  by (simp add: with_key_def with_outcome_def)

lemma fst_doFetch_with_key:
  assumes "k \<noteq> []"
  shows "fst (doFetch (with_key k (with_outcome out P)) ep ps sg) =
     (if has_http_scheme (cfg_base (getNewsApiConfig (penv (with_outcome out P))))
      then settle (with_outcome out P) (request_for (with_outcome out P) ep ps sg) out
      else Inl (config_error (with_outcome out P)))"
proof -
  have "settle (with_outcome out P) (request_for (with_key k (with_outcome out P)) ep ps sg) out
      = settle (with_outcome out P) (request_for (with_outcome out P) ep ps sg) out"
    by (rule settle_req_url) (rule req_url_with_key)
  then show ?thesis
    using assms
    by (simp add: doFetch_parts config_ok_with_key fetch_with_key settle_with_key
        config_error_with_key)
qed

section \<open>The sample data, evaluated\<close>

lemma sample_nokey_cfg:
  "cfg_base (getNewsApiConfig (penv (sample_platform None None out))) = ''https://newsapi.org/v2''"
  "cfg_apiKey (getNewsApiConfig (penv (sample_platform None None out))) = None"
  by (simp_all add: sample_platform_def sample_env_def getNewsApiConfig_def Let_def
      or_else_def DEFAULT_BASE_def stripTrailingSlashes_def)

lemma sample_direct_cfg:
  "k \<noteq> [] \<Longrightarrow> cfg_base (getNewsApiConfig (penv (sample_platform None (Some k) out))) = ''https://newsapi.org/v2''"
  "k \<noteq> [] \<Longrightarrow> cfg_apiKey (getNewsApiConfig (penv (sample_platform None (Some k) out))) = Some k"
  by (simp_all add: sample_platform_def sample_env_def getNewsApiConfig_def Let_def
      or_else_def DEFAULT_BASE_def stripTrailingSlashes_def)

lemma sample_proxy_cfg:
  "cfg_base (getNewsApiConfig (penv (sample_platform (Some ''http://localhost:3010/api/news'') kopt out)))
     = ''http://localhost:3010/api/news''"
  by (simp add: sample_platform_def sample_env_def getNewsApiConfig_def Let_def
      or_else_def DEFAULT_BASE_def stripTrailingSlashes_def)

lemma default_base_direct: "\<not> isProxyBase ''https://newsapi.org/v2''"
  by code_simp

lemma default_scheme: "has_http_scheme ''https://newsapi.org/v2''"
  by code_simp

lemma localhost_proxy: "isProxyBase ''http://localhost:3010/api/news''"
  by code_simp

lemma localhost_scheme: "has_http_scheme ''http://localhost:3010/api/news''"
  by code_simp

lemma sample_direct_ok: "k \<noteq> [] \<Longrightarrow> config_ok (sample_platform None (Some k) out)"
  by (simp add: config_ok_def Let_def sample_direct_cfg default_scheme default_base_direct)

lemma sample_proxy_ok:
  "config_ok (sample_platform (Some ''http://localhost:3010/api/news'') kopt out)"
  by (simp add: config_ok_def Let_def sample_proxy_cfg localhost_proxy localhost_scheme)

lemma sample_fetch: "fetch (sample_platform b kopt out) req = out"
  by (simp add: sample_platform_def)

lemma sample_with_key:
  "with_key k (with_outcome out (sample_platform b kopt out')) = sample_platform b (Some k) out"
  by (simp add: with_key_def with_outcome_def sample_platform_def sample_env_def)

lemma sample_svc_cfg:
  "getNewsApiConfig_svc (penv (sample_platform None (Some ''secret'') out))
     = \<lparr>cfg_base = ''https://newsapi.org/v2'', cfg_apiKey = Some ''secret''\<rparr>"
  by (simp add: sample_platform_def sample_env_def getNewsApiConfig_svc_def Let_def
      or_else_def DEFAULT_BASE_def)

lemma doFetch_svc_non_json:
  "fst (doFetch_svc (sample_platform None (Some ''secret'') sample_non_json) endpoint params sg)
     = Inr JNull"
  unfolding doFetch_svc_def Let_def sample_svc_cfg
  by (simp add: default_scheme or_else_def sample_platform_def sample_non_json_def res_ok_def)

lemma lower_failed_to_fetch: "toLowerCase ''Failed to fetch'' = ''failed to fetch''"
  by code_simp

lemma failed_to_fetch_is_network: "isNetworkOrCORSError (ThrownObj sample_failed_to_fetch)"
  by (simp add: isNetworkOrCORSError_iff sample_failed_to_fetch_def lower_failed_to_fetch)

lemma abort_is_not_network: "\<not> isNetworkOrCORSError (ThrownObj sample_abort_error)"
  by (simp add: isNetworkOrCORSError_iff sample_abort_error_def)

section \<open>Success normalization\<close>

text \<open>
  C1. On a successful call the result's \<open>articles\<close> is a sequence (the payload's when that
  is one, else empty) and its \<open>totalResults\<close> is the payload's or 0, also for a body that is
  not JSON. The client with the proxy mode does this (lemmas \<open>getTopHeadlines_success\<close>,
  \<open>searchEverything_success\<close>, \<open>articles_is_sequence\<close>). The copy in
  \<open>services/newsApi.js\<close> does not: for a response with status 200 whose body is not JSON
  it reads \<open>data.totalResults\<close> of \<open>null\<close>, and both operations reject with the \<open>TypeError\<close>
  of that access, where the other client returns the empty result.
\<close>

theorem non_json_body_breaks_older_copy:
  "fst (getTopHeadlines_svc (sample_platform None (Some ''secret'') sample_non_json) no_filters None)
     = Inl (null_TypeError ''totalResults'')
   \<and> fst (searchEverything_svc (sample_platform None (Some ''secret'') sample_non_json)
            (no_filters\<lparr>f_q := Str ''news''\<rparr>) None)
     = Inl (null_TypeError ''totalResults'')
   \<and> fst (getTopHeadlines (sample_platform None (Some ''secret'') sample_non_json) no_filters None)
     = Inr \<lparr>totalResults = JNum (Fin 0), articles = JArr []\<rparr>
   \<and> fst (searchEverything (sample_platform None (Some ''secret'') sample_non_json)
            (no_filters\<lparr>f_q := Str ''news''\<rparr>) None)
     = Inr \<lparr>totalResults = JNum (Fin 0), articles = JArr []\<rparr>"
proof -
  let ?P = "sample_platform None (Some ''secret'') sample_non_json"
  let ?f = "no_filters\<lparr>f_q := Str ''news''\<rparr>"
  let ?r = "\<lparr>res_status = 200, res_json = None\<rparr>"
  have q: "search_query ?P ?f = ''news''"
    by (simp add: search_query_def trim_def is_space_unit_def)
  have old: "fst (getTopHeadlines_svc ?P no_filters None) = Inl (null_TypeError ''totalResults'')
      \<and> fst (searchEverything_svc ?P ?f None) = Inl (null_TypeError ''totalResults'')"
    by (simp add: getTopHeadlines_svc_parts searchEverything_svc_parts q doFetch_svc_non_json
        finish_svc_def normalize_result_svc_def)
  have ok: "config_ok ?P" by (simp add: sample_direct_ok)
  have f: "fetch ?P req = Resolves ?r" for req
    by (simp add: sample_fetch sample_non_json_def)
  have r: "res_ok ?r" "opt_get (payload_of ?r) ''status'' \<noteq> Some (JStr ''error'')"
    by (simp_all add: res_ok_def payload_of_def)
  have n: "normalize_result (payload_of ?r) = \<lparr>totalResults = JNum (Fin 0), articles = JArr []\<rparr>"
    by (simp add: normalize_result_def payload_of_def json_or_def)
  have new: "fst (getTopHeadlines ?P no_filters None)
        = Inr \<lparr>totalResults = JNum (Fin 0), articles = JArr []\<rparr>
      \<and> fst (searchEverything ?P ?f None)
        = Inr \<lparr>totalResults = JNum (Fin 0), articles = JArr []\<rparr>"
    using getTopHeadlines_success[OF ok f r] searchEverything_success[OF ok _ f r, of ?f] q n
    by simp
  from old new show ?thesis by blast
qed

section \<open>Configuration errors\<close>

text \<open>
  C2, as amended. In direct mode (the base URL references the upstream host) with no API
  key configured (the variable unset or empty), \<open>getTopHeadlines\<close> rejects with an error of
  code \<open>CONFIG\<close> after reading the configuration only, and so does \<open>searchEverything\<close> when
  its query is not blank; for a blank query \<open>searchEverything\<close> rejects with code
  \<open>VALIDATION\<close> before the configuration is read. No request is sent in either case.
\<close>

theorem direct_without_key_is_config_error:
  assumes "references_upstream_host (cfg_base (getNewsApiConfig (penv P)))"
    and "REACT_APP_NEWS_API_KEY (penv P) = None \<or> REACT_APP_NEWS_API_KEY (penv P) = Some []"
  shows "getTopHeadlines P f sg = (Inl (config_error P), [ConfigRead])
         \<and> (if search_query P f = []
             then searchEverything P f sg = (Inl validation_error, [])
             else searchEverything P f sg = (Inl (config_error P), [ConfigRead]))
         \<and> err_code (config_error P) = Str ''CONFIG''
         \<and> err_code validation_error = Str ''VALIDATION''
         \<and> requests_of (snd (getTopHeadlines P f sg)) = []
         \<and> requests_of (snd (searchEverything P f sg)) = []"
proof -
  have "\<not> config_ok P"
    using assms by (simp add: config_ok_def Let_def isProxyBase_iff cfg_apiKey_None_iff)
  then show ?thesis
    by (simp add: getTopHeadlines_parts searchEverything_parts doFetch_parts finish_Inl
        err_code_config_error validation_error_def new_Error_def)
qed

text \<open>The theorem at a platform with the default base URL and no key.\<close>

theorem direct_without_key_is_config_error_witness:
  "references_upstream_host (cfg_base (getNewsApiConfig (penv (sample_platform None None sample_ok))))
   \<and> REACT_APP_NEWS_API_KEY (penv (sample_platform None None sample_ok)) = None
   \<and> search_query (sample_platform None None sample_ok) (no_filters\<lparr>f_q := Str ''news''\<rparr>) = ''news''
   \<and> getTopHeadlines (sample_platform None None sample_ok) (no_filters\<lparr>f_q := Str ''news''\<rparr>) None
       = (Inl (config_error (sample_platform None None sample_ok)), [ConfigRead])
   \<and> searchEverything (sample_platform None None sample_ok) (no_filters\<lparr>f_q := Str ''news''\<rparr>) None
       = (Inl (config_error (sample_platform None None sample_ok)), [ConfigRead])
   \<and> err_code (config_error (sample_platform None None sample_ok)) = Str ''CONFIG''"
proof -
  let ?P = "sample_platform None None sample_ok"
  let ?f = "no_filters\<lparr>f_q := Str ''news''\<rparr>"
  have 1: "references_upstream_host (cfg_base (getNewsApiConfig (penv ?P)))"
    using default_base_direct by (simp add: sample_nokey_cfg isProxyBase_iff)
  have 2: "REACT_APP_NEWS_API_KEY (penv ?P) = None"
    by (simp add: sample_platform_def sample_env_def)
  have 3: "search_query ?P ?f = ''news''"
    by (simp add: search_query_def trim_def is_space_unit_def)
  from direct_without_key_is_config_error[OF 1, of ?f None] 2 3 1 show ?thesis
    by simp
qed

text \<open>
  C2 as the specification states it fails for \<open>searchEverything\<close> with the empty query:
  in direct mode without a key the code of the rejection is \<open>VALIDATION\<close>, not \<open>CONFIG\<close>.
\<close>

theorem direct_without_key_blank_query_counterexample:
  "\<not> isProxyBase (cfg_base (getNewsApiConfig (penv (sample_platform None None sample_ok))))
   \<and> cfg_apiKey (getNewsApiConfig (penv (sample_platform None None sample_ok))) = None
   \<and> searchEverything (sample_platform None None sample_ok) (no_filters\<lparr>f_q := Str []\<rparr>) None
       = (Inl ((new_Error ''Please enter a search term.'') \<lparr>err_code := Str ''VALIDATION''\<rparr>), [])
   \<and> err_code ((new_Error ''Please enter a search term.'') \<lparr>err_code := Str ''VALIDATION''\<rparr>)
       \<noteq> Str ''CONFIG''"
proof -
  have "search_query (sample_platform None None sample_ok) (no_filters\<lparr>f_q := Str []\<rparr>) = []"
    by (simp add: search_query_def trim_def)
  then show ?thesis
    using default_base_direct
    by (simp add: sample_nokey_cfg searchEverything_parts validation_error_def)
qed

section \<open>Clamping of the page size and the page number\<close>

text \<open>
  C3, as amended. Every request of \<open>getTopHeadlines\<close> and of \<open>searchEverything\<close> carries as
  \<open>pageSize\<close> the string of \<open>safePageSize\<close> of the caller's page size (10 when left out)
  and as \<open>page\<close> the string of \<open>safePage\<close> of the caller's page (1 when left out). The
  page size sent is a number from 1 to 100 for every input: 500 gives 100, every negative
  number gives 1, and 0 gives the default 10. The page sent is at least 1.
\<close>

theorem page_size_clamped:
  "(\<forall>req \<in> set (requests_of (snd (getTopHeadlines P f sg)))
             \<union> set (requests_of (snd (searchEverything P f sg))).
      query_param req ''pageSize''
        = Some (NumberToString P (safePageSize P (default_to (Num (Fin 10)) (f_pageSize f))))
      \<and> query_param req ''page''
        = Some (NumberToString P (safePage P (default_to (Num (Fin 1)) (f_page f)))))
   \<and> (\<exists>r. safePageSize P v = Fin r \<and> 1 \<le> r \<and> r \<le> 100)
   \<and> safePageSize P (Num (Fin 500)) = Fin 100
   \<and> (\<forall>r<0. safePageSize P (Num (Fin r)) = Fin 1)
   \<and> safePageSize P (Num (Fin 0)) = Fin 10
   \<and> (safePage P w = PosInf \<or> (\<exists>r. safePage P w = Fin r \<and> 1 \<le> r))"
proof -
  have "\<forall>req \<in> set (requests_of (snd (getTopHeadlines P f sg)))
             \<union> set (requests_of (snd (searchEverything P f sg))).
      query_param req ''pageSize''
        = Some (NumberToString P (safePageSize P (default_to (Num (Fin 10)) (f_pageSize f))))
      \<and> query_param req ''page''
        = Some (NumberToString P (safePage P (default_to (Num (Fin 1)) (f_page f))))"
    by (auto simp: requests_of_getTopHeadlines requests_of_searchEverything
        headlines_query search_query_params split: if_splits)
  moreover have "\<forall>r<0. safePageSize P (Num (Fin r)) = Fin 1"
    by (simp add: safePageSize_negative)
  ultimately show ?thesis
    using safePageSize_range[of P v] safePageSize_500[of P] safePageSize_zero[of P]
      safePage_range[of P w]
    by blast
qed

text \<open>The theorem at the page size 500, and at the negative number -5.\<close>

theorem page_size_clamped_witness:
  "map (\<lambda>req. query_param req ''pageSize'')
     (requests_of (snd (getTopHeadlines (sample_platform None (Some ''secret'') sample_ok)
                          (no_filters\<lparr>f_pageSize := Num (Fin 500)\<rparr>) None)))
     = [Some ''100'']
   \<and> (-5 :: rat) < 0
   \<and> safePageSize (sample_platform None (Some ''secret'') sample_ok) (Num (Fin (-5))) = Fin 1"
proof -
  let ?P = "sample_platform None (Some ''secret'') sample_ok"
  let ?f = "no_filters\<lparr>f_pageSize := Num (Fin 500)\<rparr>"
  have ok: "config_ok ?P" by (simp add: sample_direct_ok)
  then have reqs: "requests_of (snd (getTopHeadlines ?P ?f None))
      = [request_for ?P ''top-headlines'' (headlines_params ?P ?f) None]"
    by (simp add: requests_of_getTopHeadlines)
  have neg: "(-5 :: rat) < 0" by simp
  from page_size_clamped[of ?P ?f None] reqs
  have "query_param (request_for ?P ''top-headlines'' (headlines_params ?P ?f) None) ''pageSize''
        = Some (NumberToString ?P (safePageSize ?P (default_to (Num (Fin 10)) (f_pageSize ?f))))"
    by simp
  moreover have "safePageSize ?P (default_to (Num (Fin 10)) (f_pageSize ?f)) = Fin 100"
    by (simp add: no_filters_def default_to_def safePageSize_500)
  moreover have "NumberToString ?P (Fin 100) = ''100''"
    by (simp add: sample_platform_def sample_NumberToString_def)
  moreover from page_size_clamped[of ?P] neg have "safePageSize ?P (Num (Fin (-5))) = Fin 1"
    by blast
  ultimately show ?thesis using reqs neg by simp
qed

text \<open>
  C3 as the specification states it fails at 0: a request of \<open>getTopHeadlines\<close> for the
  page size 0 carries the page size 10, not 1.
\<close>

theorem page_size_zero_counterexample:
  "map (\<lambda>req. query_param req ''pageSize'')
     (requests_of (snd (getTopHeadlines (sample_platform None (Some ''secret'') sample_ok)
                          (no_filters\<lparr>f_pageSize := Num (Fin 0)\<rparr>) None)))
     = [Some ''10'']"
proof -
  let ?P = "sample_platform None (Some ''secret'') sample_ok"
  let ?f = "no_filters\<lparr>f_pageSize := Num (Fin 0)\<rparr>"
  have "config_ok ?P" by (simp add: sample_direct_ok)
  then have "requests_of (snd (getTopHeadlines ?P ?f None))
      = [request_for ?P ''top-headlines'' (headlines_params ?P ?f) None]"
    by (simp add: requests_of_getTopHeadlines)
  moreover have "safePageSize ?P (default_to (Num (Fin 10)) (f_pageSize ?f)) = Fin 10"
    by (simp add: no_filters_def default_to_def safePageSize_zero)
  moreover have "NumberToString ?P (Fin 10) = ''10''"
    by (simp add: sample_platform_def sample_NumberToString_def)
  ultimately show ?thesis by (simp add: headlines_query)
qed

section \<open>Validation of the query\<close>

text \<open>
  C4. When the query \<open>q\<close> is a string that is empty or consists of white space only,
  \<open>searchEverything\<close> rejects with the error of code \<open>VALIDATION\<close> and has no effect at
  all: the configuration is not read and no request is sent. Both copies of the client
  do so, on every platform.
\<close>

theorem blank_query_rejected:
  assumes "f_q f = Str s" and "trim s = []"
  shows "searchEverything P f sg
           = (Inl ((new_Error ''Please enter a search term.'') \<lparr>err_code := Str ''VALIDATION''\<rparr>), [])
         \<and> searchEverything_svc P f sg
           = (Inl ((new_Error ''Please enter a search term.'') \<lparr>err_code := Str ''VALIDATION''\<rparr>), [])"
proof -
  have "search_query P f = []" using assms by (rule search_query_blank)
  then show ?thesis
    by (simp add: searchEverything_parts searchEverything_svc_blank validation_error_def)
qed

text \<open>The theorem at a query of three spaces.\<close>

theorem blank_query_rejected_witness:
  "f_q (no_filters\<lparr>f_q := Str ''   ''\<rparr>) = Str ''   ''
   \<and> trim ''   '' = []
   \<and> searchEverything (sample_platform None None sample_ok) (no_filters\<lparr>f_q := Str ''   ''\<rparr>) None
       = (Inl ((new_Error ''Please enter a search term.'') \<lparr>err_code := Str ''VALIDATION''\<rparr>), [])
   \<and> searchEverything_svc (sample_platform None None sample_ok) (no_filters\<lparr>f_q := Str ''   ''\<rparr>) None
       = (Inl ((new_Error ''Please enter a search term.'') \<lparr>err_code := Str ''VALIDATION''\<rparr>), [])"
proof -
  have 1: "f_q (no_filters\<lparr>f_q := Str ''   ''\<rparr>) = Str ''   ''" by simp
  have 2: "trim ''   '' = []" by (simp add: trim_def is_space_unit_def)
  from blank_query_rejected[OF 1 2] 1 2 show ?thesis by blast
qed

section \<open>Transport failures and their codes\<close>

text \<open>
  C5, as amended. When \<open>fetch\<close> rejects, the call rejects, and never resolves. The error
  is the client's own, with code \<open>NETWORK\<close>, exactly when what was thrown is an object named
  \<open>TypeError\<close> whose message, in lower case, contains \<open>failed to fetch\<close>, \<open>networkerror\<close>,
  \<open>load failed\<close> or \<open>cors\<close>. Every other thrown \<open>Error\<close> is rethrown as it is, with the code
  it has, and anything else is replaced by a generic \<open>Error\<close> without a code.
\<close>

theorem transport_failure_classification:
  assumes "config_ok P"
    and "fetch P (request_for P endpoint params sg) = Rejects err"
  shows "fst (doFetch P endpoint params sg) =
           Inl (if isNetworkOrCORSError err
                then network_error (req_url (request_for P endpoint params sg))
                       (mode_of (isProxyBase (cfg_base (getNewsApiConfig (penv P)))))
                else (case err of
                        ThrownObj x \<Rightarrow>
                          if instanceofError x then x else new_Error ''Unexpected error occurred.''
                      | ThrownPrim p \<Rightarrow> new_Error ''Unexpected error occurred.''))
         \<and> err_code (network_error u m) = Str ''NETWORK''
         \<and> err_code (new_Error ''Unexpected error occurred.'') = Undefined
         \<and> isNetworkOrCORSError err =
             (\<exists>x. err = ThrownObj x \<and> err_name x = ''TypeError''
                \<and> (str_includes (toLowerCase (err_message x)) ''failed to fetch''
                   \<or> str_includes (toLowerCase (err_message x)) ''networkerror''
                   \<or> str_includes (toLowerCase (err_message x)) ''load failed''
                   \<or> str_includes (toLowerCase (err_message x)) ''cors''))"
proof -
  have "fst (doFetch P endpoint params sg) =
      Inl (toUserFacingError err (req_url (request_for P endpoint params sg))
             (mode_of (isProxyBase (cfg_base (getNewsApiConfig (penv P))))))"
    using assms by (simp add: doFetch_parts settle_def)
  then have "fst (doFetch P endpoint params sg) =
           Inl (if isNetworkOrCORSError err
                then network_error (req_url (request_for P endpoint params sg))
                       (mode_of (isProxyBase (cfg_base (getNewsApiConfig (penv P)))))
                else (case err of
                        ThrownObj x \<Rightarrow>
                          if instanceofError x then x else new_Error ''Unexpected error occurred.''
                      | ThrownPrim p \<Rightarrow> new_Error ''Unexpected error occurred.''))"
    by (simp only: toUserFacingError_cases)
  moreover have "err_code (network_error u m) = Str ''NETWORK''"
    by (simp add: network_error_def)
  moreover have "err_code (new_Error ''Unexpected error occurred.'') = Undefined"
    by (simp add: new_Error_def)
  ultimately show ?thesis using isNetworkOrCORSError_iff[of err] by (intro conjI) assumption+
qed

text \<open>The theorem at a \<open>TypeError\<close> with the message \<open>Failed to fetch\<close>.\<close>

theorem transport_failure_classification_witness:
  "map_sum err_code id
     (fst (doFetch (sample_platform None (Some ''secret'')
                      (Rejects (ThrownObj sample_failed_to_fetch)))
             ''top-headlines'' [] None))
     = Inl (Str ''NETWORK'')"
proof -
  let ?P = "sample_platform None (Some ''secret'') (Rejects (ThrownObj sample_failed_to_fetch))"
  have ok: "config_ok ?P" by (simp add: sample_direct_ok)
  have f: "fetch ?P (request_for ?P ''top-headlines'' [] None)
      = Rejects (ThrownObj sample_failed_to_fetch)"
    by (rule sample_fetch)
  from transport_failure_classification[OF ok f]
  have "fst (doFetch ?P ''top-headlines'' [] None)
      = Inl (network_error (req_url (request_for ?P ''top-headlines'' [] None))
               (mode_of (isProxyBase (cfg_base (getNewsApiConfig (penv ?P))))))"
    by (simp add: failed_to_fetch_is_network)
  then show ?thesis by (simp add: network_error_def)
qed

text \<open>
  C5 as the specification states it fails for a cancelled or timed-out request: \<open>fetch\<close>
  rejects with the \<open>AbortError\<close> of the aborted signal, which the client rethrows unchanged;
  its code is not \<open>NETWORK\<close>.
\<close>

theorem abort_is_not_network_counterexample:
  "fst (getTopHeadlines (sample_platform None (Some ''secret'') (Rejects (ThrownObj sample_abort_error)))
          no_filters (Some True))
     = Inl sample_abort_error
   \<and> err_code sample_abort_error \<noteq> Str ''NETWORK''"
proof -
  let ?P = "sample_platform None (Some ''secret'') (Rejects (ThrownObj sample_abort_error))"
  have ok: "config_ok ?P" by (simp add: sample_direct_ok)
  have "fst (getTopHeadlines ?P no_filters (Some True)) = Inl sample_abort_error"
    using ok abort_is_not_network
    by (simp add: getTopHeadlines_parts doFetch_parts sample_fetch settle_def
        toUserFacingError_cases finish_def)
       (simp add: sample_abort_error_def)
  then show ?thesis by (simp add: sample_abort_error_def)
qed

section \<open>The key and the error messages\<close>

text \<open>
  C6, as amended. The result of a call, and with it the message of the error it rejects
  with, does not depend on the value of the configured key: two runs with different
  non-empty keys, the same input and the same outcome of \<open>fetch\<close> give the same result.
\<close>

theorem error_independent_of_key_value:
  assumes "k \<noteq> []" and "k' \<noteq> []"
  shows "fst (doFetch (with_key k (with_outcome out P)) endpoint params sg)
           = fst (doFetch (with_key k' (with_outcome out P)) endpoint params sg)
         \<and> fst (getTopHeadlines (with_key k (with_outcome out P)) f sg)
           = fst (getTopHeadlines (with_key k' (with_outcome out P)) f sg)
         \<and> fst (searchEverything (with_key k (with_outcome out P)) f sg)
           = fst (searchEverything (with_key k' (with_outcome out P)) f sg)"
  using assms
  by (simp add: getTopHeadlines_parts searchEverything_parts fst_doFetch_with_key
      headlines_params_with_key search_params_with_key search_query_with_key)

text \<open>The theorem at two keys and a response with status 429.\<close>

theorem error_independent_of_key_value_witness:
  "fst (getTopHeadlines (sample_platform None (Some ''secret'') sample_rate_limited) no_filters None)
     = fst (getTopHeadlines (sample_platform None (Some ''another-key'') sample_rate_limited)
              no_filters None)"
proof -
  have 1: "''secret'' \<noteq> []" and 2: "''another-key'' \<noteq> []" by simp_all
  from error_independent_of_key_value[OF 1 2, of sample_rate_limited
      "sample_platform None None sample_rate_limited" _ _ None no_filters]
  show ?thesis by (simp add: sample_with_key)
qed

text \<open>
  C6 as the specification states it fails for an upstream response whose message repeats
  the key: the client passes the payload's message on, and the message of the rejection
  contains the key.
\<close>

theorem upstream_message_echo_counterexample:
  "REACT_APP_NEWS_API_KEY (penv (sample_platform None (Some ''secret'') sample_key_echo)) = Some ''secret''
   \<and> fst (getTopHeadlines (sample_platform None (Some ''secret'') sample_key_echo) no_filters None)
       = Inl (new_Error ''Request rejected for key secret''
               \<lparr>err_status := Some 400,
                err_details := Payload (JObj [(''status'', JStr ''error''),
                                              (''message'', JStr ''Request rejected for key secret'')])\<rparr>)
   \<and> str_includes ''Request rejected for key secret'' ''secret''"
proof -
  let ?P = "sample_platform None (Some ''secret'') sample_key_echo"
  have ok: "config_ok ?P" by (simp add: sample_direct_ok)
  have k: "REACT_APP_NEWS_API_KEY (penv ?P) = Some ''secret''"
    by (simp add: sample_platform_def sample_env_def)
  have r: "fst (getTopHeadlines ?P no_filters None)
       = Inl (new_Error ''Request rejected for key secret''
               \<lparr>err_status := Some 400,
                err_details := Payload (JObj [(''status'', JStr ''error''),
                                              (''message'', JStr ''Request rejected for key secret'')])\<rparr>)"
    using ok
    by (simp add: getTopHeadlines_parts doFetch_parts sample_fetch sample_key_echo_def
        settle_def res_ok_def mapApiError_def json_or_def Let_def finish_def)
  have i: "str_includes ''Request rejected for key secret'' ''secret''" by code_simp
  from k r i show ?thesis by blast
qed

section \<open>The credential header\<close>

lemma mode_aware_requests:
  "\<forall>req \<in> set (requests_of (snd (doFetch P endpoint params sg)))
            \<union> set (requests_of (snd (getTopHeadlines P f sg)))
            \<union> set (requests_of (snd (searchEverything P f sg))).
     req_method req = ''GET''
     \<and> url_base (req_url req) = cfg_base (getNewsApiConfig (penv P))
     \<and> (if references_upstream_host (url_base (req_url req))
        then \<exists>k. k \<noteq> [] \<and> REACT_APP_NEWS_API_KEY (penv P) = Some k
                 \<and> req_headers req = [(''X-Api-Key'', k)]
        else req_headers req = [])"
proof
  fix req
  assume "req \<in> set (requests_of (snd (doFetch P endpoint params sg)))
            \<union> set (requests_of (snd (getTopHeadlines P f sg)))
            \<union> set (requests_of (snd (searchEverything P f sg)))"
  then obtain ep ps where ok: "config_ok P" and req: "req = request_for P ep ps sg"
    by (auto simp: requests_of_doFetch requests_of_getTopHeadlines
        requests_of_searchEverything split: if_splits)
  show "req_method req = ''GET''
     \<and> url_base (req_url req) = cfg_base (getNewsApiConfig (penv P))
     \<and> (if references_upstream_host (url_base (req_url req))
        then \<exists>k. k \<noteq> [] \<and> REACT_APP_NEWS_API_KEY (penv P) = Some k
                 \<and> req_headers req = [(''X-Api-Key'', k)]
        else req_headers req = [])"
    unfolding req using request_for_headers[OF ok, of ep ps sg] by simp
qed

text \<open>The copy in \<open>services/newsApi.js\<close>: every request carries the key.\<close>

lemma doFetch_svc_requests:
  "\<forall>req \<in> set (requests_of (snd (doFetch_svc P endpoint params sg))).
     req_method req = ''GET''
     \<and> url_base (req_url req) = cfg_base (getNewsApiConfig_svc (penv P))
     \<and> (\<exists>k. k \<noteq> [] \<and> cfg_apiKey (getNewsApiConfig_svc (penv P)) = Some k
            \<and> req_headers req = [(''X-Api-Key'', k)])"
  unfolding doFetch_svc_def Let_def
  by (auto simp: or_else_def split: fetch_outcome.splits option.splits if_splits)

lemma snd_getTopHeadlines_svc:
  "snd (getTopHeadlines_svc P f sg) = snd (doFetch_svc P ''top-headlines'' (headlines_params P f) sg)"
  by (simp add: getTopHeadlines_svc_parts)

lemma requests_of_searchEverything_svc:
  "requests_of (snd (searchEverything_svc P f sg)) =
     (if search_query P f = [] then []
      else requests_of (snd (doFetch_svc P ''everything'' (search_params P f) sg)))"
  by (simp add: searchEverything_svc_parts)

lemma svc_requests_send_key:
  "\<forall>req \<in> set (requests_of (snd (doFetch_svc P endpoint params sg)))
            \<union> set (requests_of (snd (getTopHeadlines_svc P f sg)))
            \<union> set (requests_of (snd (searchEverything_svc P f sg))).
     req_method req = ''GET''
     \<and> url_base (req_url req) = cfg_base (getNewsApiConfig_svc (penv P))
     \<and> (\<exists>k. k \<noteq> [] \<and> cfg_apiKey (getNewsApiConfig_svc (penv P)) = Some k
            \<and> req_headers req = [(''X-Api-Key'', k)])"
proof
  fix req
  assume "req \<in> set (requests_of (snd (doFetch_svc P endpoint params sg)))
            \<union> set (requests_of (snd (getTopHeadlines_svc P f sg)))
            \<union> set (requests_of (snd (searchEverything_svc P f sg)))"
  then obtain ep ps where "req \<in> set (requests_of (snd (doFetch_svc P ep ps sg)))"
    by (auto simp: snd_getTopHeadlines_svc requests_of_searchEverything_svc split: if_splits)
  then show "req_method req = ''GET''
     \<and> url_base (req_url req) = cfg_base (getNewsApiConfig_svc (penv P))
     \<and> (\<exists>k. k \<noteq> [] \<and> cfg_apiKey (getNewsApiConfig_svc (penv P)) = Some k
            \<and> req_headers req = [(''X-Api-Key'', k)])"
    using doFetch_svc_requests by blast
qed

lemma sample_svc_proxy_cfg:
  "getNewsApiConfig_svc (penv (sample_platform (Some ''http://localhost:3010/api/news'') (Some ''secret'') out))
     = \<lparr>cfg_base = ''http://localhost:3010/api/news'', cfg_apiKey = Some ''secret''\<rparr>"
  by (simp add: sample_platform_def sample_env_def getNewsApiConfig_svc_def Let_def or_else_def)

lemma sample_svc_proxy_headers:
  "map req_headers (requests_of (snd (doFetch_svc
       (sample_platform (Some ''http://localhost:3010/api/news'') (Some ''secret'') sample_ok)
       endpoint params sg)))
     = [[(''X-Api-Key'', ''secret'')]]"
  unfolding doFetch_svc_def Let_def sample_svc_proxy_cfg
  by (simp add: localhost_scheme or_else_def sample_fetch sample_ok_def res_ok_def)

lemma sample_svc_direct_headers:
  "map req_headers (requests_of (snd (doFetch_svc
       (sample_platform None (Some ''secret'') sample_ok) endpoint params sg)))
     = [[(''X-Api-Key'', ''secret'')]]"
  unfolding doFetch_svc_def Let_def sample_svc_cfg
  by (simp add: default_scheme or_else_def sample_fetch sample_ok_def res_ok_def)

text \<open>
  C7, as amended. In the client with the proxy mode, every request that \<open>doFetch\<close>,
  \<open>getTopHeadlines\<close> or \<open>searchEverything\<close> hands to \<open>fetch\<close> is a \<open>GET\<close> to the configured base
  URL; when the base URL references the upstream host (direct mode), its only header is
  \<open>X-Api-Key\<close> with the configured key, which is not empty, and otherwise (proxy mode) it
  has no header at all. The copy in \<open>services/newsApi.js\<close> has no proxy mode: every request
  it hands to \<open>fetch\<close> is a \<open>GET\<close> whose only header is \<open>X-Api-Key\<close> with the configured key,
  whatever the base URL.
\<close>

theorem credential_header_by_mode:
  "(\<forall>req \<in> set (requests_of (snd (doFetch P endpoint params sg)))
            \<union> set (requests_of (snd (getTopHeadlines P f sg)))
            \<union> set (requests_of (snd (searchEverything P f sg))).
     req_method req = ''GET''
     \<and> url_base (req_url req) = cfg_base (getNewsApiConfig (penv P))
     \<and> (if references_upstream_host (url_base (req_url req))
        then \<exists>k. k \<noteq> [] \<and> REACT_APP_NEWS_API_KEY (penv P) = Some k
                 \<and> req_headers req = [(''X-Api-Key'', k)]
        else req_headers req = []))
   \<and> (\<forall>req \<in> set (requests_of (snd (doFetch_svc P endpoint params sg)))
            \<union> set (requests_of (snd (getTopHeadlines_svc P f sg)))
            \<union> set (requests_of (snd (searchEverything_svc P f sg))).
     req_method req = ''GET''
     \<and> url_base (req_url req) = cfg_base (getNewsApiConfig_svc (penv P))
     \<and> (\<exists>k. k \<noteq> [] \<and> cfg_apiKey (getNewsApiConfig_svc (penv P)) = Some k
            \<and> req_headers req = [(''X-Api-Key'', k)]))"
  using mode_aware_requests[of P endpoint params sg f]
    svc_requests_send_key[of P endpoint params sg f]
  by (intro conjI) assumption+

text \<open>
  The theorem in direct mode, and in proxy mode with a key in the environment all the same.
\<close>

theorem credential_header_by_mode_witness:
  "map req_headers
     (requests_of (snd (getTopHeadlines (sample_platform None (Some ''secret'') sample_ok)
                          no_filters None)))
     = [[(''X-Api-Key'', ''secret'')]]
   \<and> map req_headers
     (requests_of (snd (getTopHeadlines
          (sample_platform (Some ''http://localhost:3010/api/news'') (Some ''secret'') sample_ok)
          no_filters None)))
     = [[]]
   \<and> map req_headers
     (requests_of (snd (getTopHeadlines_svc (sample_platform None (Some ''secret'') sample_ok)
                          no_filters None)))
     = [[(''X-Api-Key'', ''secret'')]]"
proof -
  let ?D = "sample_platform None (Some ''secret'') sample_ok"
  let ?X = "sample_platform (Some ''http://localhost:3010/api/news'') (Some ''secret'') sample_ok"
  let ?rd = "request_for ?D ''top-headlines'' (headlines_params ?D no_filters) None"
  let ?rx = "request_for ?X ''top-headlines'' (headlines_params ?X no_filters) None"
  have rd: "requests_of (snd (getTopHeadlines ?D no_filters None)) = [?rd]"
    by (simp add: requests_of_getTopHeadlines sample_direct_ok)
  have rx: "requests_of (snd (getTopHeadlines ?X no_filters None)) = [?rx]"
    by (simp add: requests_of_getTopHeadlines sample_proxy_ok)
  have kd: "REACT_APP_NEWS_API_KEY (penv ?D) = Some ''secret''"
    by (simp add: sample_platform_def sample_env_def)
  have hd: "references_upstream_host (cfg_base (getNewsApiConfig (penv ?D)))"
    using default_base_direct by (simp add: sample_direct_cfg isProxyBase_iff)
  have hx: "\<not> references_upstream_host (cfg_base (getNewsApiConfig (penv ?X)))"
    using localhost_proxy by (simp add: sample_proxy_cfg isProxyBase_iff)
  from credential_header_by_mode[of ?D "''top-headlines''" "[]" None no_filters] rd
  have "url_base (req_url ?rd) = cfg_base (getNewsApiConfig (penv ?D))
     \<and> (if references_upstream_host (url_base (req_url ?rd))
        then \<exists>k. k \<noteq> [] \<and> REACT_APP_NEWS_API_KEY (penv ?D) = Some k
                 \<and> req_headers ?rd = [(''X-Api-Key'', k)]
        else req_headers ?rd = [])"
    by simp
  with hd kd have 1: "req_headers ?rd = [(''X-Api-Key'', ''secret'')]" by auto
  from credential_header_by_mode[of ?X "''top-headlines''" "[]" None no_filters] rx
  have "url_base (req_url ?rx) = cfg_base (getNewsApiConfig (penv ?X))
     \<and> (if references_upstream_host (url_base (req_url ?rx))
        then \<exists>k. k \<noteq> [] \<and> REACT_APP_NEWS_API_KEY (penv ?X) = Some k
                 \<and> req_headers ?rx = [(''X-Api-Key'', k)]
        else req_headers ?rx = [])"
    by simp
  with hx have 2: "req_headers ?rx = []" by auto
  have 3: "map req_headers (requests_of (snd (getTopHeadlines_svc ?D no_filters None)))
      = [[(''X-Api-Key'', ''secret'')]]"
    by (simp only: snd_getTopHeadlines_svc sample_svc_direct_headers)
  from 1 2 3 rd rx show ?thesis by simp
qed

text \<open>
  C7 as the specification states it fails for the copy in \<open>services/newsApi.js\<close>: with a
  proxy's base URL and a key in the environment, its request carries the key, where the
  request of the client with the proxy mode carries no header.
\<close>

theorem older_copy_sends_key_to_proxy_counterexample:
  "isProxyBase (cfg_base (getNewsApiConfig_svc
       (penv (sample_platform (Some ''http://localhost:3010/api/news'') (Some ''secret'') sample_ok))))
   \<and> map req_headers (requests_of (snd (getTopHeadlines_svc
       (sample_platform (Some ''http://localhost:3010/api/news'') (Some ''secret'') sample_ok)
       no_filters None)))
     = [[(''X-Api-Key'', ''secret'')]]
   \<and> map req_headers (requests_of (snd (getTopHeadlines
       (sample_platform (Some ''http://localhost:3010/api/news'') (Some ''secret'') sample_ok)
       no_filters None)))
     = [[]]"
proof -
  let ?X = "sample_platform (Some ''http://localhost:3010/api/news'') (Some ''secret'') sample_ok"
  have 1: "isProxyBase (cfg_base (getNewsApiConfig_svc (penv ?X)))"
    by (simp add: sample_svc_proxy_cfg localhost_proxy)
  have 2: "map req_headers (requests_of (snd (getTopHeadlines_svc ?X no_filters None)))
      = [[(''X-Api-Key'', ''secret'')]]"
    by (simp only: snd_getTopHeadlines_svc sample_svc_proxy_headers)
  have "\<not> references_upstream_host (cfg_base (getNewsApiConfig (penv ?X)))"
    using localhost_proxy by (simp add: sample_proxy_cfg isProxyBase_iff)
  then have 3: "map req_headers (requests_of (snd (getTopHeadlines ?X no_filters None))) = [[]]"
    by (simp add: requests_of_getTopHeadlines sample_proxy_ok
        request_for_headers(4)[OF sample_proxy_ok])
  from 1 2 3 show ?thesis by blast
qed

section \<open>Endpoint resolution and mode\<close>

text \<open>
  C8. The logical endpoint \<open>top-headlines\<close> resolves to itself. The logical endpoint
  \<open>search\<close> resolves to \<open>everything\<close> exactly when the base URL contains the upstream host
  name in some letter case, and to \<open>search\<close> otherwise. The mode is \<open>proxy\<close> exactly when the
  base URL does not contain that host name, and \<open>direct\<close> exactly when it does. A request of
  \<open>getTopHeadlines\<close> goes to \<open>top-headlines\<close>, a request of \<open>searchEverything\<close> to the path
  resolved from \<open>search\<close>.
\<close>

theorem endpoint_resolution:
  "path_of (isProxyBase base) ''top-headlines'' = ''top-headlines''
   \<and> path_of (isProxyBase base) ''search'' =
       (if references_upstream_host base then ''everything'' else ''search'')
   \<and> (mode_of (isProxyBase base) = ''proxy'') = (\<not> references_upstream_host base)
   \<and> (mode_of (isProxyBase base) = ''direct'') = references_upstream_host base
   \<and> map (url_path \<circ> req_url) (requests_of (snd (getTopHeadlines P f sg)))
       \<in> {[], [''top-headlines'']}
   \<and> map (url_path \<circ> req_url) (requests_of (snd (searchEverything P f sg)))
       \<in> {[], [if references_upstream_host (cfg_base (getNewsApiConfig (penv P)))
                 then ''everything'' else ''search'']}"
proof -
  have 1: "path_of (isProxyBase base) ''top-headlines'' = ''top-headlines''"
    by (simp add: path_of_def)
  have 2: "path_of (isProxyBase base) ''search'' =
       (if references_upstream_host base then ''everything'' else ''search'')"
    by (simp add: path_of_def isProxyBase_iff)
  have 3: "(mode_of (isProxyBase base) = ''proxy'') = (\<not> references_upstream_host base)"
    by (simp add: mode_of_def isProxyBase_iff)
  have 4: "(mode_of (isProxyBase base) = ''direct'') = references_upstream_host base"
    by (simp add: mode_of_def isProxyBase_iff)
  have 5: "map (url_path \<circ> req_url) (requests_of (snd (getTopHeadlines P f sg)))
       \<in> {[], [''top-headlines'']}"
    by (simp add: requests_of_getTopHeadlines request_for_def Let_def path_of_def)
  have 6: "map (url_path \<circ> req_url) (requests_of (snd (searchEverything P f sg)))
       \<in> {[], [if references_upstream_host (cfg_base (getNewsApiConfig (penv P)))
                 then ''everything'' else ''search'']}"
    by (simp add: requests_of_searchEverything request_for_def Let_def path_of_def
        isProxyBase_iff)
  from 1 2 3 4 5 6 show ?thesis by blast
qed

section \<open>Classification of error responses\<close>

text \<open>
  C9, as amended. When the response's status is outside 200 to 299, or its payload has the
  status \<open>error\<close>, the call rejects with an error that carries the response's status and
  the raw payload, and whose message is: the rate-limit text when the status is 429; the
  service-unavailable text when the status is 500 or more; the unauthorized text when
  the status is 401 or 403; otherwise the payload's message or error field, or the fallback
  text, provided that field has a string conversion. A field that is a string is the
  message as it is; a field of another type gives the string \<open>new Error\<close> makes of it.
\<close>

theorem status_classification:
  assumes "config_ok P"
    and "fetch P (request_for P endpoint params sg) = Resolves res"
    and "\<not> res_ok res \<or> opt_get (payload_of res) ''status'' = Some (JStr ''error'')"
  shows "(if res_status res = 429 then
        fst (doFetch P endpoint params sg) =
          Inl (api_error ''Rate limit reached. Please wait a minute before trying again.''
                 (res_status res) (payload_of res))
      else if 500 \<le> res_status res then
        fst (doFetch P endpoint params sg) =
          Inl (api_error ''News service is currently unavailable. Please try again later.''
                 (res_status res) (payload_of res))
      else if res_status res = 401 \<or> res_status res = 403 then
        fst (doFetch P endpoint params sg) =
          Inl (api_error ''Unauthorized: Please ensure a valid NewsAPI key is configured (direct mode) or proxy is authorized.''
                 (res_status res) (payload_of res))
      else
        (\<forall>msg. json_ToString P (embedded_message (payload_of res)) = Some msg \<longrightarrow>
           fst (doFetch P endpoint params sg) =
             Inl (api_error msg (res_status res) (payload_of res))))
    \<and> err_message (api_error m st d) = m
    \<and> err_status (api_error m st d) = Some st
    \<and> err_details (api_error m st d) = Payload d
    \<and> json_ToString P (JStr s) = Some s"
proof -
  have "fst (doFetch P endpoint params sg)
      = settle P (request_for P endpoint params sg) (Resolves res)"
    using assms(1,2) by (simp add: doFetch_parts)
  also have "\<dots> = (case json_ToString P (mapApiError (res_status res) (payload_of res)) of
        None \<Rightarrow> Inl conversion_TypeError
      | Some m \<Rightarrow> Inl (api_error m (res_status res) (payload_of res)))"
    using assms(3) by (rule settle_error_response)
  finally have "(if res_status res = 429 then
        fst (doFetch P endpoint params sg) =
          Inl (api_error ''Rate limit reached. Please wait a minute before trying again.''
                 (res_status res) (payload_of res))
      else if 500 \<le> res_status res then
        fst (doFetch P endpoint params sg) =
          Inl (api_error ''News service is currently unavailable. Please try again later.''
                 (res_status res) (payload_of res))
      else if res_status res = 401 \<or> res_status res = 403 then
        fst (doFetch P endpoint params sg) =
          Inl (api_error ''Unauthorized: Please ensure a valid NewsAPI key is configured (direct mode) or proxy is authorized.''
                 (res_status res) (payload_of res))
      else
        (\<forall>msg. json_ToString P (embedded_message (payload_of res)) = Some msg \<longrightarrow>
           fst (doFetch P endpoint params sg) =
             Inl (api_error msg (res_status res) (payload_of res))))"
    by (simp add: mapApiError_cases)
  moreover have "err_message (api_error m st d) = m \<and> err_status (api_error m st d) = Some st
         \<and> err_details (api_error m st d) = Payload d"
    by (simp add: api_error_def)
  moreover have "json_ToString P (JStr s) = Some s" by simp
  ultimately show ?thesis by (intro conjI) simp_all
qed

text \<open>The theorem at a 429 without a body, and at a payload with the error indicator.\<close>

theorem status_classification_witness:
  "fst (doFetch (sample_platform None (Some ''secret'') sample_rate_limited) ''top-headlines'' [] None)
     = Inl (api_error ''Rate limit reached. Please wait a minute before trying again.'' 429 JNull)
   \<and> json_ToString (sample_platform None (Some ''secret'') sample_upstream_error)
         (embedded_message (JObj [(''status'', JStr ''error''),
                                  (''message'', JStr ''The country is not supported.'')]))
       = Some ''The country is not supported.''
   \<and> fst (doFetch (sample_platform None (Some ''secret'') sample_upstream_error) ''top-headlines'' [] None)
     = Inl (api_error ''The country is not supported.'' 200
              (JObj [(''status'', JStr ''error''),
                     (''message'', JStr ''The country is not supported.'')]))"
proof -
  let ?R = "sample_platform None (Some ''secret'') sample_rate_limited"
  let ?U = "sample_platform None (Some ''secret'') sample_upstream_error"
  let ?r = "\<lparr>res_status = 429, res_json = None\<rparr>"
  let ?d = "JObj [(''status'', JStr ''error''), (''message'', JStr ''The country is not supported.'')]"
  let ?u = "\<lparr>res_status = 200, res_json = Some ?d\<rparr>"
  have okR: "config_ok ?R" and okU: "config_ok ?U" by (simp_all add: sample_direct_ok)
  have fR: "fetch ?R (request_for ?R ''top-headlines'' [] None) = Resolves ?r"
    by (simp add: sample_platform_def sample_rate_limited_def)
  have fU: "fetch ?U (request_for ?U ''top-headlines'' [] None) = Resolves ?u"
    by (simp add: sample_platform_def sample_upstream_error_def)
  have hR: "\<not> res_ok ?r \<or> opt_get (payload_of ?r) ''status'' = Some (JStr ''error'')"
    by (simp add: res_ok_def)
  have hU: "\<not> res_ok ?u \<or> opt_get (payload_of ?u) ''status'' = Some (JStr ''error'')"
    by (simp add: payload_of_def)
  have pR: "payload_of ?r = JNull" and pU: "payload_of ?u = ?d"
    by (simp_all add: payload_of_def)
  have eU: "json_ToString ?U (embedded_message ?d) = Some ''The country is not supported.''"
    by (simp add: embedded_message_def)
  from status_classification[OF okR fR hR]
  have 1: "fst (doFetch ?R ''top-headlines'' [] None)
     = Inl (api_error ''Rate limit reached. Please wait a minute before trying again.'' 429 JNull)"
    by (simp add: pR)
  from status_classification[OF okU fU hU]
  have 2: "fst (doFetch ?U ''top-headlines'' [] None)
     = Inl (api_error ''The country is not supported.'' 200 ?d)"
    using eU by (simp add: pU)
  from 1 eU 2 show ?thesis by blast
qed

text \<open>
  C9 as the specification states it fails for a payload whose message is an object that
  owns a property named \<open>toString\<close>: at status 400 the call rejects with the \<open>TypeError\<close> of
  the string conversion, which carries neither the status nor the payload.
\<close>

theorem inconvertible_message_counterexample:
  "\<not> res_ok \<lparr>res_status = 400,
               res_json = Some (JObj [(''status'', JStr ''error''),
                                      (''message'', JObj [(''toString'', JNum (Fin 1))])])\<rparr>
   \<and> fst (doFetch (sample_platform None (Some ''secret'') sample_inconvertible)
            ''top-headlines'' [] None)
     = Inl conversion_TypeError
   \<and> fst (getTopHeadlines (sample_platform None (Some ''secret'') sample_inconvertible)
            no_filters None)
     = Inl conversion_TypeError
   \<and> err_message conversion_TypeError = ''Cannot convert object to primitive value''
   \<and> err_status conversion_TypeError = None
   \<and> err_details conversion_TypeError = NoDetails"
proof -
  let ?P = "sample_platform None (Some ''secret'') sample_inconvertible"
  have ok: "config_ok ?P" by (simp add: sample_direct_ok)
  have 0: "\<not> res_ok \<lparr>res_status = 400,
               res_json = Some (JObj [(''status'', JStr ''error''),
                                      (''message'', JObj [(''toString'', JNum (Fin 1))])])\<rparr>"
    by (simp add: res_ok_def)
  have 1: "fst (doFetch ?P ''top-headlines'' [] None) = Inl conversion_TypeError"
    using ok
    by (simp add: doFetch_parts sample_fetch sample_inconvertible_def
        settle_def res_ok_def mapApiError_def json_or_def Let_def)
  have 2: "fst (getTopHeadlines ?P no_filters None) = Inl conversion_TypeError"
    using ok
    by (simp add: getTopHeadlines_parts doFetch_parts sample_fetch sample_inconvertible_def
        settle_def res_ok_def mapApiError_def json_or_def Let_def finish_def)
  have 3: "err_message conversion_TypeError = ''Cannot convert object to primitive value''
      \<and> err_status conversion_TypeError = None \<and> err_details conversion_TypeError = NoDetails"
    by (simp add: conversion_TypeError_def)
  from 0 1 2 3 show ?thesis by blast
qed

section \<open>Falsy page sizes\<close>

text \<open>
  C10, as amended. A page size that coerces to 0 or to \<open>NaN\<close> is sent as the default 10, and
  a page that coerces to 0 or to \<open>NaN\<close> is sent as 1. The page size is sent as 1 exactly for
  the inputs that coerce to a number that is at most 1 and not 0: the strictly negative
  ones, the fractions between 0 and 1, and 1 itself.
\<close>

theorem page_size_default_and_floor:
  "(\<forall>req \<in> set (requests_of (snd (getTopHeadlines P f sg)))
             \<union> set (requests_of (snd (searchEverything P f sg))).
      (ToNumber P (f_pageSize f) \<in> {NaN, Fin 0}
         \<longrightarrow> query_param req ''pageSize'' = Some (NumberToString P (Fin 10)))
      \<and> (ToNumber P (f_page f) \<in> {NaN, Fin 0}
         \<longrightarrow> query_param req ''page'' = Some (NumberToString P (Fin 1)))
      \<and> (safePageSize P (default_to (Num (Fin 10)) (f_pageSize f)) = Fin 1
         \<longrightarrow> query_param req ''pageSize'' = Some (NumberToString P (Fin 1))))
   \<and> (safePageSize P v = Fin 1) =
       (ToNumber P v = NegInf \<or> (\<exists>r. ToNumber P v = Fin r \<and> r \<noteq> 0 \<and> r \<le> 1))"
proof -
  have "query_param req ''pageSize'' = Some (NumberToString P (Fin 10))"
    if "req \<in> set (requests_of (snd (getTopHeadlines P f sg)))
             \<union> set (requests_of (snd (searchEverything P f sg)))"
      and "ToNumber P (f_pageSize f) \<in> {NaN, Fin 0}" for req
    using that
    by (auto simp: requests_of_getTopHeadlines requests_of_searchEverything
        headlines_query search_query_params default_falsy split: if_splits)
  moreover have "query_param req ''page'' = Some (NumberToString P (Fin 1))"
    if "req \<in> set (requests_of (snd (getTopHeadlines P f sg)))
             \<union> set (requests_of (snd (searchEverything P f sg)))"
      and "ToNumber P (f_page f) \<in> {NaN, Fin 0}" for req
    using that
    by (auto simp: requests_of_getTopHeadlines requests_of_searchEverything
        headlines_query search_query_params safePage_default_falsy split: if_splits)
  moreover have "query_param req ''pageSize'' = Some (NumberToString P (Fin 1))"
    if "req \<in> set (requests_of (snd (getTopHeadlines P f sg)))
             \<union> set (requests_of (snd (searchEverything P f sg)))"
      and "safePageSize P (default_to (Num (Fin 10)) (f_pageSize f)) = Fin 1" for req
    using that
    by (auto simp: requests_of_getTopHeadlines requests_of_searchEverything
        headlines_query search_query_params split: if_splits)
  ultimately have "\<forall>req \<in> set (requests_of (snd (getTopHeadlines P f sg)))
             \<union> set (requests_of (snd (searchEverything P f sg))).
      (ToNumber P (f_pageSize f) \<in> {NaN, Fin 0}
         \<longrightarrow> query_param req ''pageSize'' = Some (NumberToString P (Fin 10)))
      \<and> (ToNumber P (f_page f) \<in> {NaN, Fin 0}
         \<longrightarrow> query_param req ''page'' = Some (NumberToString P (Fin 1)))
      \<and> (safePageSize P (default_to (Num (Fin 10)) (f_pageSize f)) = Fin 1
         \<longrightarrow> query_param req ''pageSize'' = Some (NumberToString P (Fin 1)))"
    by (intro ballI conjI impI) assumption+
  then show ?thesis using safePageSize_one_iff[of P v] by (intro conjI) assumption+
qed

text \<open>
  The theorem at the empty string as page size, a string without digits as page, and the
  page size -3.
\<close>

theorem page_size_default_and_floor_witness:
  "ToNumber (sample_platform None (Some ''secret'') sample_ok)
     (f_pageSize (no_filters\<lparr>f_pageSize := Str [], f_page := Str ''abc''\<rparr>)) = Fin 0
   \<and> ToNumber (sample_platform None (Some ''secret'') sample_ok)
     (f_page (no_filters\<lparr>f_pageSize := Str [], f_page := Str ''abc''\<rparr>)) = NaN
   \<and> map (\<lambda>req. (query_param req ''pageSize'', query_param req ''page''))
       (requests_of (snd (getTopHeadlines (sample_platform None (Some ''secret'') sample_ok)
                            (no_filters\<lparr>f_pageSize := Str [], f_page := Str ''abc''\<rparr>) None)))
       = [(Some ''10'', Some ''1'')]
   \<and> map (\<lambda>req. query_param req ''pageSize'')
       (requests_of (snd (getTopHeadlines (sample_platform None (Some ''secret'') sample_ok)
                            (no_filters\<lparr>f_pageSize := Num (Fin (- 3))\<rparr>) None)))
       = [Some ''1'']"
proof -
  let ?P = "sample_platform None (Some ''secret'') sample_ok"
  let ?f = "no_filters\<lparr>f_pageSize := Str [], f_page := Str ''abc''\<rparr>"
  let ?g = "no_filters\<lparr>f_pageSize := Num (Fin (- 3))\<rparr>"
  have ok: "config_ok ?P" by (simp add: sample_direct_ok)
  have rf: "requests_of (snd (getTopHeadlines ?P ?f None))
      = [request_for ?P ''top-headlines'' (headlines_params ?P ?f) None]"
    using ok by (simp add: requests_of_getTopHeadlines)
  have rg: "requests_of (snd (getTopHeadlines ?P ?g None))
      = [request_for ?P ''top-headlines'' (headlines_params ?P ?g) None]"
    using ok by (simp add: requests_of_getTopHeadlines)
  have n1: "ToNumber ?P (f_pageSize ?f) = Fin 0"
    by (simp add: sample_platform_def sample_StringToNumber_def)
  have n2: "ToNumber ?P (f_page ?f) = NaN"
    by (simp add: sample_platform_def sample_StringToNumber_def)
  have n3: "safePageSize ?P (default_to (Num (Fin 10)) (f_pageSize ?g)) = Fin 1"
    by (simp add: default_to_def safePageSize_negative)
  have s10: "NumberToString ?P (Fin 10) = ''10''" and s1: "NumberToString ?P (Fin 1) = ''1''"
    by (simp_all add: sample_platform_def sample_NumberToString_def)
  from page_size_default_and_floor[of ?P ?f None] rf n1 n2
  have "query_param (request_for ?P ''top-headlines'' (headlines_params ?P ?f) None) ''pageSize''
          = Some (NumberToString ?P (Fin 10))
        \<and> query_param (request_for ?P ''top-headlines'' (headlines_params ?P ?f) None) ''page''
          = Some (NumberToString ?P (Fin 1))"
    by simp
  moreover from page_size_default_and_floor[of ?P ?g None] rg n3
  have "query_param (request_for ?P ''top-headlines'' (headlines_params ?P ?g) None) ''pageSize''
          = Some (NumberToString ?P (Fin 1))"
    by simp
  ultimately show ?thesis using rf rg n1 n2 s10 s1 by simp
qed

text \<open>
  C10 as stated fails at one half: it is not strictly negative, and a request for the page
  size 0.5 carries the page size 1.
\<close>

theorem page_size_half_counterexample:
  "ToNumber (sample_platform None (Some ''secret'') sample_ok)
     (f_pageSize (no_filters\<lparr>f_pageSize := Num (Fin (1 / 2))\<rparr>)) = Fin (1 / 2)
   \<and> \<not> (1 / 2 :: rat) < 0
   \<and> map (\<lambda>req. query_param req ''pageSize'')
       (requests_of (snd (getTopHeadlines (sample_platform None (Some ''secret'') sample_ok)
                            (no_filters\<lparr>f_pageSize := Num (Fin (1 / 2))\<rparr>) None)))
       = [Some ''1'']"
proof -
  let ?P = "sample_platform None (Some ''secret'') sample_ok"
  let ?f = "no_filters\<lparr>f_pageSize := Num (Fin (1 / 2))\<rparr>"
  have "config_ok ?P" by (simp add: sample_direct_ok)
  then have "requests_of (snd (getTopHeadlines ?P ?f None))
      = [request_for ?P ''top-headlines'' (headlines_params ?P ?f) None]"
    by (simp add: requests_of_getTopHeadlines)
  moreover have "safePageSize ?P (default_to (Num (Fin 10)) (f_pageSize ?f)) = Fin 1"
    by (simp add: default_to_def safePageSize_def num_or_def Math_max_def Math_min_def)
  moreover have "NumberToString ?P (Fin 1) = ''1''"
    by (simp add: sample_platform_def sample_NumberToString_def)
  ultimately show ?thesis by (simp add: headlines_query)
qed

end
